theory Spec2Isabelle
  imports Main
begin

text \<open>
  The accounts service in three packages: \<open>jwt\<close> issues, validates and reads the session
  tokens, \<open>database\<close> keeps the API keys, \<open>api\<close> holds the HTTP handlers. Each Go
  function is a HOL function of the same name; the state it reads and writes (package
  variables, the database) is passed in and returned; what lies outside the sources
  (libraries, functions of files that are not among them) is a parameter, and the calls
  to the database driver are modelled on collections held as lists.
\<close>

section \<open>Errors and results\<close>

text \<open>
  Go errors are values. \<open>ErrNew msg\<close> is \<open>errors.New(msg)\<close>, \<open>ErrExternal msg\<close> is an
  error handed back unchanged from a library (file system, JSON, JWT, Mongo driver),
  \<open>AddContext e msg\<close> is \<open>errors.AddContext(e, msg)\<close>, \<open>Compose es\<close> is
  \<open>errors.Compose\<close> of the non-nil errors \<open>es\<close>. The remaining constructors are the
  package-level error variables the code returns by name.
\<close>

datatype error =
    ErrTokenExpired
  | ErrMaxNumAPIKeysExceeded
  | ErrInvalidSkylink
  | ErrNoDocuments
  | ErrNew string
  | ErrExternal string
  | AddContext error string
  | Compose "error list"

text \<open>
  A Go function either returns normally (a value or an error) or panics. \<open>Panic msg\<close> is
  the run-time fault of a failed type assertion or a nil dereference; \<open>msg\<close> is what
  \<open>%v\<close> prints of the value that \<open>recover\<close> returns.
\<close>

datatype 'a result = Panic string | Err error | Ok 'a

definition nil_dereference :: string where
  "nil_dereference = ''runtime error: invalid memory address or nil pointer dereference''"

section \<open>Package jwt: tokens and claims\<close>

text \<open>
  The values an \<open>interface{}\<close> claim can hold after JSON decoding: \<open>IMap\<close> is a
  \<open>map[string]interface{}\<close>, \<open>INilMap\<close> the nil map of that type, \<open>INil\<close> the nil
  interface (also what indexing a map at an absent key yields).
\<close>

datatype iface =
    INil
  | IBool bool
  | INum int
  | IStr string
  | ISlice "iface list"
  | IMap "(string \<times> iface) list"
  | INilMap

record tokenTraits =
  Email :: string

record tokenIdentity =
  Traits :: tokenTraits

record tokenSession =
  Active :: bool
  Identity :: tokenIdentity

text \<open>
  A claim of a token is a decoded value, or the \<open>tokenSession\<close> struct that
  \<open>tokenForUser\<close> stores before the token is serialized.
\<close>

datatype claim = Val iface | SessionStruct tokenSession

text \<open>
  The message of a failed type assertion \<open>x.(T)\<close> on an \<open>interface{}\<close> names the
  dynamic type of \<open>x\<close> (\<open>nil\<close> for the nil interface; a decoded JSON number is a
  \<open>float64\<close>) and the asserted type \<open>T\<close>.
\<close>

definition type_name :: "iface \<Rightarrow> string" where
  "type_name v =
     (case v of
        INil \<Rightarrow> ''nil''
      | IBool b \<Rightarrow> ''bool''
      | INum n \<Rightarrow> ''float64''
      | IStr s \<Rightarrow> ''string''
      | ISlice xs \<Rightarrow> ''[]interface {}''
      | IMap m \<Rightarrow> ''map[string]interface {}''
      | INilMap \<Rightarrow> ''map[string]interface {}'')"

definition claim_type_name :: "claim \<Rightarrow> string" where
  "claim_type_name c = (case c of Val v \<Rightarrow> type_name v | SessionStruct s \<Rightarrow> ''jwt.tokenSession'')"

definition conversion_panic :: "string \<Rightarrow> string \<Rightarrow> string" where
  "conversion_panic dynamic asserted =
     ''interface conversion: interface {} is '' @ dynamic @ '', not '' @ asserted"

type_synonym token = "(string \<times> claim) list"

text \<open>Time is counted in nanoseconds since the Unix epoch.\<close>

type_synonym time = int

definition Unix :: "time \<Rightarrow> int" where
  "Unix t = t div 1000000000"

definition time_Unix :: "int \<Rightarrow> time" where
  "time_Unix s = s * 1000000000"

text \<open>The zero \<open>time.Time\<close> (January 1, year 1), returned for an unset expiry.\<close>

definition zero_time :: time where
  "zero_time = time_Unix (- 62135596800)"

text \<open>Addition on \<open>int64\<close> wraps around.\<close>

definition int64 :: "int \<Rightarrow> int" where
  "int64 x = (x + 9223372036854775808) mod 18446744073709551616 - 9223372036854775808"

definition Get :: "token \<Rightarrow> string \<Rightarrow> claim option" where
  "Get t name = map_of t name"

text \<open>
  \<open>t.Set(name, v)\<close>: the registered claims are typed (\<open>exp\<close> and \<open>iat\<close> numeric dates,
  \<open>iss\<close> and \<open>sub\<close> strings) and a value of another type is refused.
\<close>

definition Set_claim :: "string \<Rightarrow> claim \<Rightarrow> token \<Rightarrow> error option \<times> token" where
  "Set_claim name v t =
     (let stored = (name, v) # filter (\<lambda>kv. fst kv \<noteq> name) t in
      if name = ''exp'' \<or> name = ''iat'' then
        (case v of Val (INum n) \<Rightarrow> (None, stored)
                 | _ \<Rightarrow> (Some (ErrExternal ''invalid value for a numeric date''), t))
      else if name = ''iss'' \<or> name = ''sub'' then
        (case v of Val (IStr s) \<Rightarrow> (None, stored)
                 | _ \<Rightarrow> (Some (ErrExternal ''invalid value for a string claim''), t))
      else (None, stored))"

definition Expiration :: "token \<Rightarrow> time" where
  "Expiration t =
     (case Get t ''exp'' of Some (Val (INum s)) \<Rightarrow> time_Unix s | _ \<Rightarrow> zero_time)"

text \<open>
  What \<open>encoding/json\<close> makes of the \<open>tokenSession\<close> struct, by its field tags, once
  the token has been serialized and parsed again.
\<close>

definition marshal_session :: "tokenSession \<Rightarrow> iface" where
  "marshal_session s =
     IMap [(''active'', IBool (Active s)),
           (''identity'', IMap [(''traits'',
              IMap [(''email'', IStr (Email (Traits (Identity s))))])])]"

definition marshal_claim :: "claim \<Rightarrow> claim" where
  "marshal_claim c = (case c of SessionStruct s \<Rightarrow> Val (marshal_session s) | Val v \<Rightarrow> Val v)"

definition json_roundtrip :: "token \<Rightarrow> token" where
  "json_roundtrip t = map (\<lambda>kv. (fst kv, marshal_claim (snd kv))) t"

subsection \<open>Keys and the libraries the package calls\<close>

record jwk =
  key_id :: string
  key_alg :: string
  key_material :: nat
  key_private :: bool

text \<open>
  The JWT, JWK and JSON libraries and the file system are not part of the repository;
  the package is modelled over any implementation \<open>L\<close> of the calls it makes. \<open>'b\<close> is
  the type of byte strings (file contents and serialized tokens).
\<close>

record 'b libs =
  ReadFile :: "string \<Rightarrow> string + 'b"
  json_Unmarshal :: "'b \<Rightarrow> string + jwk list"
  jwk_PublicSetOf :: "jwk list \<Rightarrow> string + jwk list"
  SignatureAlgorithms :: "string list"
  jwt_Sign :: "token \<Rightarrow> string \<Rightarrow> jwk \<Rightarrow> string + 'b"
  jwt_Parse :: "'b \<Rightarrow> string + token"
  jwt_Parse_WithKeySet :: "'b \<Rightarrow> jwk list option \<Rightarrow> string + token"

text \<open>The package-level variables.\<close>

record globals =
  AccountsJWKS :: "jwk list option"
  AccountsPublicJWKS :: "jwk list option"
  AccountsJWKSFile :: string
  PortalName :: string
  TTL :: int

subsection \<open>The functions of the package\<close>

definition tokenForUser :: "globals \<Rightarrow> time \<Rightarrow> string \<Rightarrow> string \<Rightarrow> error + token" where
  "tokenForUser g now emailAddr sub =
     (if emailAddr = '''' \<or> sub = '''' then Inl (ErrNew ''email and sub cannot be empty'')
      else
        let session = \<lparr>Active = True, Identity = \<lparr>Traits = \<lparr>Email = emailAddr\<rparr>\<rparr>\<rparr>;
            (err1, t1) = Set_claim ''exp'' (Val (INum (int64 (Unix now + TTL g)))) [];
            (err2, t2) = Set_claim ''iat'' (Val (INum (Unix now))) t1;
            (err3, t3) = Set_claim ''iss'' (Val (IStr (PortalName g))) t2;
            (err4, t4) = Set_claim ''sub'' (Val (IStr sub)) t3;
            (err5, t5) = Set_claim ''session'' (SessionStruct session) t4
        in (case List.map_filter id [err1, err2, err3, err4, err5] of
              [] \<Rightarrow> Inr t5
            | e # es \<Rightarrow> Inl (Compose (e # es))))"

definition signatureAlgoAndKey :: "'b libs \<Rightarrow> globals \<Rightarrow> (string \<times> jwk) result" where
  "signatureAlgoAndKey L g =
     (case AccountsJWKS g of
        None \<Rightarrow> Panic nil_dereference
      | Some [] \<Rightarrow> Err (ErrNew ''JWKS is empty'')
      | Some (key # rest) \<Rightarrow>
          let sigAlgo = (case find (\<lambda>sa. sa = key_alg key) (SignatureAlgorithms L) of
                           None \<Rightarrow> '''' | Some sa \<Rightarrow> sa)
          in if sigAlgo = '''' then Err (ErrNew ''failed to determine signature algorithm'')
             else Ok (sigAlgo, key))"

definition TokenForUser :: "'b libs \<Rightarrow> globals \<Rightarrow> time \<Rightarrow> string \<Rightarrow> string \<Rightarrow> token result" where
  "TokenForUser L g now email sub =
     (case signatureAlgoAndKey L g of
        Panic msg \<Rightarrow> Panic msg
      | Err e \<Rightarrow> Err e
      | Ok (sigAlgo, key) \<Rightarrow>
          (case tokenForUser g now email sub of
             Inl e \<Rightarrow> Err (AddContext e ''failed to build token'')
           | Inr t \<Rightarrow>
               (case jwt_Sign L t sigAlgo key of
                  Inl e \<Rightarrow> Err (ErrNew ''failed to sign token'')
                | Inr bytes \<Rightarrow>
                    (case jwt_Parse L bytes of
                       Inl e \<Rightarrow> Err (ErrNew ''failed to determine serialize token'')
                     | Inr tk \<Rightarrow> Ok tk))))"

definition TokenSerialize :: "'b libs \<Rightarrow> globals \<Rightarrow> token \<Rightarrow> 'b result" where
  "TokenSerialize L g t =
     (case signatureAlgoAndKey L g of
        Panic msg \<Rightarrow> Panic msg
      | Err e \<Rightarrow> Err e
      | Ok (sigAlgo, key) \<Rightarrow>
          (case jwt_Sign L t sigAlgo key of
             Inl e \<Rightarrow> Err (ErrExternal e)
           | Inr bytes \<Rightarrow> Ok bytes))"

definition ValidateToken :: "'b libs \<Rightarrow> globals \<Rightarrow> time \<Rightarrow> 'b \<Rightarrow> error + token" where
  "ValidateToken L g now t =
     (case jwt_Parse_WithKeySet L t (AccountsPublicJWKS g) of
        Inl e \<Rightarrow> Inl (ErrExternal e)
      | Inr token \<Rightarrow>
          if Expiration token < now then Inl ErrTokenExpired else Inr token)"

definition is_map :: "iface \<Rightarrow> bool" where
  "is_map v = (case v of IMap m \<Rightarrow> True | INilMap \<Rightarrow> True | _ \<Rightarrow> False)"

text \<open>Indexing a Go map: the nil interface at an absent key, and on the nil map.\<close>

definition index :: "iface \<Rightarrow> string \<Rightarrow> iface" where
  "index v k =
     (case v of IMap m \<Rightarrow> (case map_of m k of None \<Rightarrow> INil | Some x \<Rightarrow> x) | _ \<Rightarrow> INil)"

text \<open>
  \<open>TokenFields\<close>: every unchecked type assertion \<open>x.(T)\<close> panics when \<open>x\<close> does not
  hold a \<open>T\<close>.
\<close>

definition TokenFields :: "token \<Rightarrow> (string \<times> string \<times> token) result" where
  "TokenFields t =
     (case Get t ''sub'' of
        None \<Rightarrow> Err (ErrNew ''sub field missing'')
      | Some s \<Rightarrow>
          (case s of
             Val (IStr sub) \<Rightarrow>
               if sub = '''' then Err (ErrNew ''sub field missing'')
               else
                 (case Get t ''session'' of
                    None \<Rightarrow> Err (ErrNew ''session field missing'')
                  | Some sess \<Rightarrow>
                      (case sess of
                         Val session \<Rightarrow>
                           if \<not> is_map session then
                             Panic (conversion_panic (type_name session) ''map[string]interface {}'')
                           else
                             let identity = index session ''identity'' in
                             if \<not> is_map identity then
                               Panic (conversion_panic (type_name identity) ''map[string]interface {}'')
                             else
                               let traits = index identity ''traits'' in
                               if \<not> is_map traits then
                                 Panic (conversion_panic (type_name traits) ''map[string]interface {}'')
                               else if traits \<noteq> INilMap then
                                 (case index traits ''email'' of
                                    IStr email \<Rightarrow> Ok (sub, email, t)
                                  | x \<Rightarrow> Panic (conversion_panic (type_name x) ''string''))
                               else Ok (sub, '''', t)
                       | _ \<Rightarrow>
                           Panic (conversion_panic (claim_type_name sess) ''map[string]interface {}'')))
           | _ \<Rightarrow> Panic (conversion_panic (claim_type_name s) ''string'')))"

text \<open>
  The request context holds, under the package's key, a token, a value of another type
  (named by its type), or nothing.
\<close>

datatype ctx_value = CtxToken token | CtxOther string

text \<open>
  \<open>TokenFromContext\<close>: the deferred \<open>recover\<close> turns every panic of the body into an
  error whose text ends with the recovered value. With no value in the context,
  \<open>reflect.TypeOf(nil).String()\<close> is a nil dereference, recovered like the others.
\<close>

definition TokenFromContext :: "ctx_value option \<Rightarrow> (string \<times> string \<times> token) result" where
  "TokenFromContext ctx =
     (case (case ctx of
              Some (CtxToken t) \<Rightarrow> TokenFields t
            | Some (CtxOther ty) \<Rightarrow> Err (ErrNew (''invalid token type: '' @ ty))
            | None \<Rightarrow> Panic nil_dereference) of
        Panic e \<Rightarrow> Err (ErrNew (''failed to parse token from context. error: '' @ e))
      | Err e \<Rightarrow> Err e
      | Ok r \<Rightarrow> Ok r)"

definition LoadAccountsKeySet :: "'b libs \<Rightarrow> globals \<Rightarrow> error option \<times> globals" where
  "LoadAccountsKeySet L g =
     (case ReadFile L (AccountsJWKSFile g) of
        Inl e \<Rightarrow> (Some (ErrExternal e), g)
      | Inr b \<Rightarrow>
          (case json_Unmarshal L b of
             Inl e \<Rightarrow> (Some (ErrExternal e), g)
           | Inr keyset \<Rightarrow>
               (case jwk_PublicSetOf L keyset of
                  Inl e \<Rightarrow>
                    (Some (ErrExternal e), g\<lparr>AccountsJWKS := None, AccountsPublicJWKS := None\<rparr>)
                | Inr pub \<Rightarrow>
                    (None, g\<lparr>AccountsJWKS := Some keyset, AccountsPublicJWKS := Some pub\<rparr>))))"

subsection \<open>A symbolic implementation of the libraries\<close>

text \<open>
  To run the package on concrete inputs the library interface is implemented
  symbolically: a serialized token is its header, its claims as JSON and the key material
  that signed it; a key-set file is the list of its keys; anything else is raw text.
  Verification against a key set succeeds when a key of the set has the token's key id
  and the signing material.
\<close>

datatype sym_bytes =
    SymJWS string string token nat
  | SymKeys "jwk list"
  | SymRaw string

definition sym_Unmarshal :: "sym_bytes \<Rightarrow> string + jwk list" where
  "sym_Unmarshal b = (case b of SymKeys ks \<Rightarrow> Inr ks | _ \<Rightarrow> Inl ''failed to unmarshal JWKS'')"

definition sym_PublicSetOf :: "jwk list \<Rightarrow> string + jwk list" where
  "sym_PublicSetOf ks = Inr (map (\<lambda>k. k\<lparr>key_private := False\<rparr>) ks)"

definition sym_Sign :: "token \<Rightarrow> string \<Rightarrow> jwk \<Rightarrow> string + sym_bytes" where
  "sym_Sign t alg k =
     (if key_private k then Inr (SymJWS alg (key_id k) (json_roundtrip t) (key_material k))
      else Inl ''cannot sign with a public key'')"

definition sym_Parse :: "sym_bytes \<Rightarrow> string + token" where
  "sym_Parse b = (case b of SymJWS alg kid t m \<Rightarrow> Inr t | _ \<Rightarrow> Inl ''invalid compact serialization'')"

definition sym_Parse_WithKeySet :: "sym_bytes \<Rightarrow> jwk list option \<Rightarrow> string + token" where
  "sym_Parse_WithKeySet b ks =
     (case b of
        SymJWS alg kid t m \<Rightarrow>
          (case ks of
             None \<Rightarrow> Inl ''failed to verify: no key set''
           | Some keys \<Rightarrow>
               if list_ex (\<lambda>k. key_id k = kid \<and> key_material k = m) keys then Inr t
               else Inl ''failed to verify signature'')
      | _ \<Rightarrow> Inl ''invalid compact serialization'')"

definition sym_libs :: "(string \<Rightarrow> string + sym_bytes) \<Rightarrow> sym_bytes libs" where
  "sym_libs fs =
     \<lparr>ReadFile = fs,
      json_Unmarshal = sym_Unmarshal,
      jwk_PublicSetOf = sym_PublicSetOf,
      SignatureAlgorithms = [''ES256'', ''ES384'', ''ES512'', ''HS256'', ''HS384'', ''HS512'',
                             ''none'', ''PS256'', ''PS384'', ''PS512'', ''RS256'', ''RS384'', ''RS512''],
      jwt_Sign = sym_Sign,
      jwt_Parse = sym_Parse,
      jwt_Parse_WithKeySet = sym_Parse_WithKeySet\<rparr>"

text \<open>A disk with a key-set file of one RS256 key, an empty key set and a broken file.\<close>

definition signing_key :: jwk where
  "signing_key = \<lparr>key_id = ''k1'', key_alg = ''RS256'', key_material = 42, key_private = True\<rparr>"

definition disk :: "string \<Rightarrow> string + sym_bytes" where
  "disk name =
     (if name = ''jwks.json'' then Inr (SymKeys [signing_key])
      else if name = ''empty.json'' then Inr (SymKeys [])
      else if name = ''broken.json'' then Inr (SymRaw ''{'')
      else Inl ''open: no such file or directory'')"

definition globals_at_start :: "string \<Rightarrow> globals" where
  "globals_at_start file =
     \<lparr>AccountsJWKS = None, AccountsPublicJWKS = None, AccountsJWKSFile = file,
      PortalName = ''https://siasky.net'', TTL = 720 * 3600\<rparr>"

text \<open>The state after loading the one-key file.\<close>

definition globals_loaded :: globals where
  "globals_loaded =
     (globals_at_start ''jwks.json'')
       \<lparr>AccountsJWKS := Some [signing_key],
        AccountsPublicJWKS := Some [signing_key\<lparr>key_private := False\<rparr>]\<rparr>"

text \<open>Claims with a subject and a session block whose traits carry no email.\<close>

definition claims_without_email :: token where
  "claims_without_email =
     [(''sub'', Val (IStr ''u1'')),
      (''session'', Val (IMap [(''active'', IBool True),
                               (''identity'', IMap [(''traits'', IMap [])])]))]"

definition claims_with_email :: token where
  "claims_with_email =
     [(''sub'', Val (IStr ''u1'')),
      (''session'', Val (IMap [(''active'', IBool True),
                               (''identity'', IMap [(''traits'',
                                  IMap [(''email'', IStr ''a@b.c'')])])]))]"

definition claims_session_string :: token where
  "claims_session_string = [(''sub'', Val (IStr ''u1'')), (''session'', Val (IStr ''yes''))]"

text \<open>Claims whose email is a number, whose session has no identity, whose traits are a list.\<close>

definition claims_email_number :: token where
  "claims_email_number =
     [(''sub'', Val (IStr ''u1'')),
      (''session'', Val (IMap [(''identity'', IMap [(''traits'', IMap [(''email'', INum 7)])])]))]"

definition claims_without_identity :: token where
  "claims_without_identity =
     [(''sub'', Val (IStr ''u1'')), (''session'', Val (IMap [(''active'', IBool True)]))]"

definition claims_traits_list :: token where
  "claims_traits_list =
     [(''sub'', Val (IStr ''u1'')),
      (''session'', Val (IMap [(''identity'', IMap [(''traits'', ISlice [])])]))]"

text \<open>Tokens that expired at second 10: one signed by the loaded key, one by another.\<close>

definition expired_claims :: token where
  "expired_claims = [(''exp'', Val (INum 10)), (''sub'', Val (IStr ''u1''))]"

definition expired_signed :: sym_bytes where
  "expired_signed = SymJWS ''RS256'' ''k1'' expired_claims 42"

definition expired_forged :: sym_bytes where
  "expired_forged = SymJWS ''RS256'' ''k1'' expired_claims 7"

definition fresh_signed :: sym_bytes where
  "fresh_signed = SymJWS ''RS256'' ''k1'' [(''exp'', Val (INum 30)), (''sub'', Val (IStr ''u1''))] 42"

section \<open>Package database: API keys\<close>

text \<open>
  An \<open>ObjectID\<close> is twelve bytes, read here as a number; \<open>0\<close> is the zero id
  (\<open>IsZero\<close>). \<open>ObjectIDFromHex\<close> accepts exactly 24 hexadecimal digits.
\<close>

type_synonym ObjectID = nat

definition hex_digit :: "char \<Rightarrow> nat option" where
  "hex_digit c =
     (let n = (of_char c :: nat) in
      if 48 \<le> n \<and> n \<le> 57 then Some (n - 48)
      else if 97 \<le> n \<and> n \<le> 102 then Some (n - 87)
      else if 65 \<le> n \<and> n \<le> 70 then Some (n - 55)
      else None)"

fun hex_value :: "nat \<Rightarrow> string \<Rightarrow> nat option" where
  "hex_value acc [] = Some acc"
| "hex_value acc (c # cs) =
     (case hex_digit c of None \<Rightarrow> None | Some d \<Rightarrow> hex_value (16 * acc + d) cs)"

definition ObjectIDFromHex :: "string \<Rightarrow> string + ObjectID" where
  "ObjectIDFromHex s =
     (if length s \<noteq> 24 then Inl ''the provided hex string is not a valid ObjectID''
      else (case hex_value 0 s of
              None \<Rightarrow> Inl ''encoding/hex: invalid byte''
            | Some n \<Rightarrow> Inr n))"

subsection \<open>Documents and collections\<close>

datatype bson =
    BObjectID ObjectID
  | BString string
  | BTime time
  | BArray "bson list"
  | BDoc "(string \<times> bson) list"

text \<open>A document, and also a \<open>bson.M\<close> literal (a filter or an update).\<close>

type_synonym document = "(string \<times> bson) list"

type_synonym collection = "document list"

text \<open>
  The fields of \<open>database.User\<close> that the sources use. Field names carry the name of
  their struct (\<open>User_ID\<close> is \<open>User.ID\<close>, \<open>Rec_ID\<close> is \<open>PubAPIKeyRecord.ID\<close>).
\<close>

record User =
  User_ID :: ObjectID
  User_Sub :: string
  User_Email :: string
  User_PasswordHash :: string
  User_Tier :: int
  User_QuotaExceeded :: bool

record DB =
  staticAPIKeys :: collection
  staticPubAPIKeys :: collection
  staticUsers :: "User list"
  unreachable :: bool

type_synonym PubAPIKey = string

record PubAPIKeyRecord =
  Rec_ID :: ObjectID
  Rec_UserID :: ObjectID
  Rec_Key :: PubAPIKey
  Rec_Skylinks :: "string list"
  Rec_CreatedAt :: time

text \<open>The document of a record, by its \<open>bson\<close> tags; a zero \<open>_id\<close> is omitted.\<close>

definition bson_of_PubAPIKeyRecord :: "PubAPIKeyRecord \<Rightarrow> document" where
  "bson_of_PubAPIKeyRecord r =
     (if Rec_ID r = 0 then [] else [(''_id'', BObjectID (Rec_ID r))]) @
     [(''user_id'', BObjectID (Rec_UserID r)),
      (''key'', BString (Rec_Key r)),
      (''skylinks'', BArray (map BString (Rec_Skylinks r))),
      (''created_at'', BTime (Rec_CreatedAt r))]"

subsection \<open>The calls made to the MongoDB driver\<close>

text \<open>
  The driver and the server are not part of the repository. The calls the package makes
  are modelled on a collection held as a list of documents: a filter matches a document
  that has each of the filter's fields with the filter's value; every call fails when
  the server is unreachable; \<open>UpdateOne\<close> refuses an update document whose first key
  does not begin with \<open>$\<close>, knows the modifier \<open>$push\<close> with \<open>$each\<close>, and with
  \<open>Upsert\<close> false changes nothing when no document matches.
\<close>

definition matches :: "document \<Rightarrow> document \<Rightarrow> bool" where
  "matches flt doc = list_all (\<lambda>kv. map_of doc (fst kv) = Some (snd kv)) flt"

definition CountDocuments :: "DB \<Rightarrow> collection \<Rightarrow> document \<Rightarrow> string + int" where
  "CountDocuments db coll flt =
     (if unreachable db then Inl ''server selection error''
      else Inr (int (length (filter (matches flt) coll))))"

definition InsertOne :: "DB \<Rightarrow> collection \<Rightarrow> document \<Rightarrow> ObjectID \<Rightarrow> string + (ObjectID \<times> collection)" where
  "InsertOne db coll doc fresh_id =
     (if unreachable db then Inl ''server selection error''
      else
        let (oid, doc') = (case map_of doc ''_id'' of
                             Some (BObjectID i) \<Rightarrow> (i, doc)
                           | _ \<Rightarrow> (fresh_id, (''_id'', BObjectID fresh_id) # doc))
        in if list_ex (matches [(''_id'', BObjectID oid)]) coll then Inl ''duplicate key error''
           else Inr (oid, coll @ [doc']))"

fun replace_first :: "(document \<Rightarrow> bool) \<Rightarrow> document \<Rightarrow> collection \<Rightarrow> collection" where
  "replace_first p new [] = []"
| "replace_first p new (d # ds) = (if p d then new # ds else d # replace_first p new ds)"

fun delete_first :: "(document \<Rightarrow> bool) \<Rightarrow> collection \<Rightarrow> collection" where
  "delete_first p [] = []"
| "delete_first p (d # ds) = (if p d then ds else d # delete_first p ds)"

definition set_field :: "string \<Rightarrow> bson \<Rightarrow> document \<Rightarrow> document" where
  "set_field k v doc = map (\<lambda>kv. if fst kv = k then (k, v) else kv) doc"

text \<open>Applying an update document to a matched document.\<close>

definition apply_update :: "document \<Rightarrow> document \<Rightarrow> string + document" where
  "apply_update upd doc =
     (case upd of
        [(op, BDoc [(field, BDoc [(arg, BArray vs)])])] \<Rightarrow>
          if op = ''$push'' \<and> arg = ''$each'' then
            (case map_of doc field of
               None \<Rightarrow> Inr (doc @ [(field, BArray vs)])
             | Some (BArray xs) \<Rightarrow> Inr (set_field field (BArray (xs @ vs)) doc)
             | Some _ \<Rightarrow> Inl ''the field must be an array'')
          else Inl ''unknown modifier''
      | _ \<Rightarrow> Inl ''unknown modifier'')"

record UpdateResult =
  MatchedCount :: int
  ModifiedCount :: int

definition UpdateOne :: "DB \<Rightarrow> collection \<Rightarrow> document \<Rightarrow> document \<Rightarrow> string + (UpdateResult \<times> collection)" where
  "UpdateOne db coll flt upd =
     (case upd of
        [] \<Rightarrow> Inl ''update document must have at least one element''
      | (k, v) # rest \<Rightarrow>
          if take 1 k \<noteq> ''$'' then Inl ''update document must contain key beginning with $''
          else if unreachable db then Inl ''server selection error''
          else
            (case find (matches flt) coll of
               None \<Rightarrow> Inr (\<lparr>MatchedCount = 0, ModifiedCount = 0\<rparr>, coll)
             | Some doc \<Rightarrow>
                 (case apply_update upd doc of
                    Inl e \<Rightarrow> Inl e
                  | Inr doc' \<Rightarrow>
                      Inr (\<lparr>MatchedCount = 1, ModifiedCount = (if doc' = doc then 0 else 1)\<rparr>,
                           replace_first (matches flt) doc' coll))))"

definition DeleteOne :: "DB \<Rightarrow> collection \<Rightarrow> document \<Rightarrow> string + (int \<times> collection)" where
  "DeleteOne db coll flt =
     (if unreachable db then Inl ''server selection error''
      else Inr (if list_ex (matches flt) coll then 1 else 0, delete_first (matches flt) coll))"

subsection \<open>Public API keys\<close>

text \<open>
  \<open>MaxNumAPIKeysPerUser\<close> and \<open>ValidSkylinkHash\<close> are declared in files of the package
  that are not among the sources; they are parameters. The random key, the id the driver
  generates and the current time are passed in.
\<close>

fun validate_skylinks :: "(string \<Rightarrow> bool) \<Rightarrow> string list \<Rightarrow> error option" where
  "validate_skylinks ValidSkylinkHash [] = None"
| "validate_skylinks ValidSkylinkHash (s # ss) =
     (if \<not> ValidSkylinkHash s then Some ErrInvalidSkylink
      else validate_skylinks ValidSkylinkHash ss)"

definition PubAPIKeyCreate ::
  "int \<Rightarrow> (string \<Rightarrow> bool) \<Rightarrow> PubAPIKey \<Rightarrow> ObjectID \<Rightarrow> time \<Rightarrow>
   DB \<Rightarrow> User \<Rightarrow> string list \<Rightarrow> (error + PubAPIKeyRecord) \<times> DB" where
  "PubAPIKeyCreate MaxNumAPIKeysPerUser ValidSkylinkHash fresh_key fresh_id now db user skylinks =
     (if User_ID user = 0 then (Inl (ErrNew ''invalid user''), db)
      else
        (case CountDocuments db (staticPubAPIKeys db) [(''user_id'', BObjectID (User_ID user))] of
           Inl e \<Rightarrow>
             (Inl (AddContext (ErrExternal e) ''failed to ensure user can create a new API key''), db)
         | Inr n \<Rightarrow>
             if n > MaxNumAPIKeysPerUser then (Inl ErrMaxNumAPIKeysExceeded, db)
             else
               (case validate_skylinks ValidSkylinkHash skylinks of
                  Some e \<Rightarrow> (Inl e, db)
                | None \<Rightarrow>
                    let pakRec = \<lparr>Rec_ID = 0, Rec_UserID = User_ID user, Rec_Key = fresh_key,
                                  Rec_Skylinks = skylinks, Rec_CreatedAt = now\<rparr>
                    in (case InsertOne db (staticAPIKeys db) (bson_of_PubAPIKeyRecord pakRec) fresh_id of
                          Inl e \<Rightarrow> (Inl (ErrExternal e), db)
                        | Inr (InsertedID, coll) \<Rightarrow>
                            (Inr (pakRec\<lparr>Rec_ID := InsertedID\<rparr>), db\<lparr>staticAPIKeys := coll\<rparr>)))))"

definition PubAPIKeyUpdate ::
  "(string \<Rightarrow> bool) \<Rightarrow> DB \<Rightarrow> User \<Rightarrow> PubAPIKey \<Rightarrow> string list \<Rightarrow> error option \<times> DB" where
  "PubAPIKeyUpdate ValidSkylinkHash db user pak skylinks =
     (if User_ID user = 0 then (Some (ErrNew ''invalid user''), db)
      else
        (case validate_skylinks ValidSkylinkHash skylinks of
           Some e \<Rightarrow> (Some e, db)
         | None \<Rightarrow>
             let flt = [(''key'', BString pak), (''user_id'', BObjectID (User_ID user))];
                 update = [(''skylinks'', BArray (map BString skylinks))]
             in (case UpdateOne db (staticPubAPIKeys db) flt update of
                   Inl e \<Rightarrow> (Some (ErrExternal e), db)
                 | Inr (ur, coll) \<Rightarrow> (None, db\<lparr>staticPubAPIKeys := coll\<rparr>))))"

definition PubAPIKeyPatch ::
  "(string \<Rightarrow> bool) \<Rightarrow> DB \<Rightarrow> User \<Rightarrow> PubAPIKey \<Rightarrow> string list \<Rightarrow> string list \<Rightarrow> error option \<times> DB" where
  "PubAPIKeyPatch ValidSkylinkHash db user pak addSkylinks removeSkylinks =
     (if User_ID user = 0 then (Some (ErrNew ''invalid user''), db)
      else
        (case validate_skylinks ValidSkylinkHash (addSkylinks @ removeSkylinks) of
           Some e \<Rightarrow> (Some e, db)
         | None \<Rightarrow>
             let (err1, db1) =
                   (if length addSkylinks > 0 then
                      let flt = [(''key'', BString pak)];
                          update = [(''$push'', BDoc [(''skylinks'',
                                      BDoc [(''$each'', BArray (map BString addSkylinks))])])]
                      in (case UpdateOne db (staticPubAPIKeys db) flt update of
                            Inl e \<Rightarrow> (Some (ErrExternal e), db)
                          | Inr (ur, coll) \<Rightarrow> (None, db\<lparr>staticPubAPIKeys := coll\<rparr>))
                    else (None, db))
             in (case err1 of
                   Some e \<Rightarrow> (Some e, db1)
                 | None \<Rightarrow>
                     if length removeSkylinks > 0 then
                       let flt = [(''key'', BString pak)];
                           update = [(''pull'', BDoc [(''skylinks'',
                                       BDoc [(''$in'', BArray (map BString addSkylinks))])])]
                       in (case UpdateOne db1 (staticPubAPIKeys db1) flt update of
                             Inl e \<Rightarrow> (Some (ErrExternal e), db1)
                           | Inr (ur, coll) \<Rightarrow> (None, db1\<lparr>staticPubAPIKeys := coll\<rparr>))
                     else (None, db1))))"

definition PubAPIKeyDelete :: "DB \<Rightarrow> User \<Rightarrow> string \<Rightarrow> error option \<times> DB" where
  "PubAPIKeyDelete db user pakID =
     (if User_ID user = 0 then (Some (ErrNew ''invalid user''), db)
      else
        (case ObjectIDFromHex pakID of
           Inl e \<Rightarrow> (Some (AddContext (ErrExternal e) ''invalid API key ID''), db)
         | Inr oid \<Rightarrow>
             let flt = [(''_id'', BObjectID oid), (''user_id'', BObjectID (User_ID user))]
             in (case DeleteOne db (staticPubAPIKeys db) flt of
                   Inl e \<Rightarrow> (Some (ErrExternal e), db)
                 | Inr (DeletedCount, coll) \<Rightarrow>
                     if DeletedCount = 0 then (Some ErrNoDocuments, db\<lparr>staticPubAPIKeys := coll\<rparr>)
                     else (None, db\<lparr>staticPubAPIKeys := coll\<rparr>))))"

definition PubAPIKeyList :: "DB \<Rightarrow> User \<Rightarrow> error + collection" where
  "PubAPIKeyList db user =
     (if User_ID user = 0 then Inl (ErrNew ''invalid user'')
      else if unreachable db then Inl (ErrExternal ''server selection error'')
      else Inr (filter (matches [(''user_id'', BObjectID (User_ID user))]) (staticPubAPIKeys db)))"

subsection \<open>API keys\<close>

definition APIKeyDelete :: "DB \<Rightarrow> User \<Rightarrow> string \<Rightarrow> error option \<times> DB" where
  "APIKeyDelete db user ak =
     (if User_ID user = 0 then (Some (ErrNew ''invalid user''), db)
      else
        let flt = [(''key'', BString ak), (''user_id'', BObjectID (User_ID user))]
        in (case DeleteOne db (staticAPIKeys db) flt of
              Inl e \<Rightarrow> (Some (ErrExternal e), db)
            | Inr (DeletedCount, coll) \<Rightarrow> (None, db\<lparr>staticAPIKeys := coll\<rparr>)))"

subsection \<open>A store with two users and their keys\<close>

definition alice :: User where
  "alice = \<lparr>User_ID = 1, User_Sub = ''sub-alice'', User_Email = ''alice@example.com'',
            User_PasswordHash = ''hash-a'', User_Tier = 1, User_QuotaExceeded = False\<rparr>"

definition bob :: User where
  "bob = \<lparr>User_ID = 2, User_Sub = ''sub-bob'', User_Email = ''bob@example.com'',
          User_PasswordHash = ''hash-b'', User_Tier = 1, User_QuotaExceeded = False\<rparr>"

definition pub_key_doc :: "ObjectID \<Rightarrow> ObjectID \<Rightarrow> string \<Rightarrow> string list \<Rightarrow> document" where
  "pub_key_doc oid uid key skylinks =
     bson_of_PubAPIKeyRecord
       \<lparr>Rec_ID = oid, Rec_UserID = uid, Rec_Key = key, Rec_Skylinks = skylinks, Rec_CreatedAt = 0\<rparr>"

text \<open>Alice holds one public API key with the skylinks \<open>B\<close> and \<open>C\<close>.\<close>

definition db_one_key :: DB where
  "db_one_key =
     \<lparr>staticAPIKeys = [], staticPubAPIKeys = [pub_key_doc 10 1 ''KEY-A'' [''B'', ''C'']],
      staticUsers = [alice, bob], unreachable = False\<rparr>"

text \<open>Alice holds two public API keys, with a maximum of two keys per user.\<close>

definition db_two_keys :: DB where
  "db_two_keys =
     \<lparr>staticAPIKeys = [],
      staticPubAPIKeys = [pub_key_doc 10 1 ''KEY-A'' [''B'', ''C''], pub_key_doc 11 1 ''KEY-B'' []],
      staticUsers = [alice, bob], unreachable = False\<rparr>"

definition any_skylink :: "string \<Rightarrow> bool" where
  "any_skylink s = True"

section \<open>Package api: the handlers\<close>

subsection \<open>Quotas\<close>

record UserStats =
  NumUploads :: int
  TotalUploadsSize :: int

record TierLimits =
  TierName :: string
  UploadBandwidth :: int
  DownloadBandwidth :: int
  MaxUploadSize :: int
  MaxNumberUploads :: int
  RegistryDelay :: int
  Storage :: int

text \<open>
  \<open>checkUserQuotas\<close>. The database calls \<open>UserStats\<close> and \<open>UserSave\<close> and the table
  \<open>database.UserLimits\<close> are declared in files that are not among the sources; they are
  parameters, the table as a function of the tier. The function updates the user it is
  given and the store; a failure of \<open>UserSave\<close> is logged only.
\<close>

definition checkUserQuotas ::
  "(DB \<Rightarrow> User \<Rightarrow> string + UserStats) \<Rightarrow> (DB \<Rightarrow> User \<Rightarrow> string option \<times> DB) \<Rightarrow>
   (int \<Rightarrow> TierLimits) \<Rightarrow> DB \<Rightarrow> User \<Rightarrow> User \<times> DB" where
  "checkUserQuotas db_UserStats db_UserSave UserLimits db u =
     (case db_UserStats db u of
        Inl e \<Rightarrow> (u, db)
      | Inr us \<Rightarrow>
          let q = UserLimits (User_Tier u);
              quotaExceeded = (NumUploads us > MaxNumberUploads q \<or> TotalUploadsSize us > Storage q)
          in if quotaExceeded \<noteq> User_QuotaExceeded u then
               let u' = u\<lparr>User_QuotaExceeded := quotaExceeded\<rparr>
               in (u', snd (db_UserSave db u'))
             else (u, db))"

text \<open>
  A store for running the function: statistics kept per user id, and a save that
  replaces the stored user with the same id.
\<close>

definition stats_of :: "(ObjectID \<times> UserStats) list \<Rightarrow> DB \<Rightarrow> User \<Rightarrow> string + UserStats" where
  "stats_of table db u =
     (if unreachable db then Inl ''server selection error''
      else (case map_of table (User_ID u) of
              None \<Rightarrow> Inr \<lparr>NumUploads = 0, TotalUploadsSize = 0\<rparr>
            | Some us \<Rightarrow> Inr us))"

definition save_user :: "DB \<Rightarrow> User \<Rightarrow> string option \<times> DB" where
  "save_user db u =
     (if unreachable db then (Some ''server selection error'', db)
      else (None, db\<lparr>staticUsers := map (\<lambda>x. if User_ID x = User_ID u then u else x) (staticUsers db)\<rparr>))"

text \<open>The tiers of the example: anonymous, and free with at most 100 uploads.\<close>

definition example_limits :: "int \<Rightarrow> TierLimits" where
  "example_limits tier =
     (if tier = 1 then
        \<lparr>TierName = ''free'', UploadBandwidth = 10, DownloadBandwidth = 40, MaxUploadSize = 1000,
         MaxNumberUploads = 100, RegistryDelay = 125, Storage = 1000000\<rparr>
      else
        \<lparr>TierName = ''anonymous'', UploadBandwidth = 5, DownloadBandwidth = 20, MaxUploadSize = 1000,
         MaxNumberUploads = 0, RegistryDelay = 250, Storage = 0\<rparr>)"

subsection \<open>Login\<close>

text \<open>
  A request carries its post form and, possibly, a token (in a cookie or a header).
\<close>

record 'b Request =
  PostForm :: "(string \<times> string) list"
  Token :: "'b option"

definition PostFormValue :: "'b Request \<Rightarrow> string \<Rightarrow> string" where
  "PostFormValue req name = (case map_of (PostForm req) name of None \<Rightarrow> '''' | Some v \<Rightarrow> v)"

text \<open>
  The handlers call functions of the packages \<open>database\<close>, \<open>hash\<close> and \<open>jwt\<close> and
  helpers of the package \<open>api\<close> whose files are not among the sources (the handlers use
  a \<open>jwt.TokenForUser\<close> that also returns the serialized token, and a
  \<open>jwt.ValidateToken\<close> that takes a logger). They are parameters.
\<close>

record 'b collaborators =
  db_UserByEmail :: "string \<Rightarrow> error + User"
  hash_Compare :: "string \<Rightarrow> string \<Rightarrow> error option"
  jwt_TokenForUser :: "string \<Rightarrow> string \<Rightarrow> error + (token \<times> 'b)"
  jwt_ValidateToken :: "'b \<Rightarrow> error + token"
  tokenFromRequest :: "'b Request \<Rightarrow> error + 'b"
  writeCookie :: "'b \<Rightarrow> int \<Rightarrow> error option"
  time_Now :: time

text \<open>
  What a handler does is the sequence of its calls to the collaborators and of its
  writes to the response.
\<close>

datatype 'b event =
    Call_UserByEmail string
  | Call_hash_Compare string string
  | Call_TokenForUser string string
  | Call_tokenFromRequest
  | Call_ValidateToken 'b
  | Call_writeCookie 'b int
  | WriteError error nat
  | WriteSuccess

definition StatusUnauthorized :: nat where
  "StatusUnauthorized = 401"

definition StatusInternalServerError :: nat where
  "StatusInternalServerError = 500"

definition loginUser :: "'b collaborators \<Rightarrow> User \<Rightarrow> 'b event list" where
  "loginUser C u =
     Call_TokenForUser (User_Email u) (User_Sub u) #
     (case jwt_TokenForUser C (User_Email u) (User_Sub u) of
        Inl err \<Rightarrow>
          [WriteError (AddContext err ''failed to create a token for user'') StatusInternalServerError]
      | Inr (tk, tkBytes) \<Rightarrow>
          Call_writeCookie tkBytes (Unix (Expiration tk)) #
          (case writeCookie C tkBytes (Unix (Expiration tk)) of
             Some err \<Rightarrow> [WriteError err StatusInternalServerError]
           | None \<Rightarrow> [WriteSuccess]))"

definition loginPOSTCredentials :: "'b collaborators \<Rightarrow> 'b Request \<Rightarrow> string \<Rightarrow> string \<Rightarrow> 'b event list" where
  "loginPOSTCredentials C req email password =
     Call_UserByEmail email #
     (case db_UserByEmail C email of
        Inl err \<Rightarrow> [WriteError err StatusUnauthorized]
      | Inr u \<Rightarrow>
          Call_hash_Compare password (User_PasswordHash u) #
          (case hash_Compare C password (User_PasswordHash u) of
             Some err \<Rightarrow> [WriteError (ErrNew ''password mismatch'') StatusUnauthorized]
           | None \<Rightarrow> loginUser C u))"

definition loginPOSTToken :: "'b collaborators \<Rightarrow> 'b Request \<Rightarrow> 'b event list" where
  "loginPOSTToken C req =
     Call_tokenFromRequest #
     (case tokenFromRequest C req of
        Inl err \<Rightarrow> [WriteError err StatusUnauthorized]
      | Inr tokenStr \<Rightarrow>
          Call_ValidateToken tokenStr #
          (case jwt_ValidateToken C tokenStr of
             Inl err \<Rightarrow> [WriteError err StatusUnauthorized]
           | Inr token \<Rightarrow>
               let exp = Expiration token in
               if time_Now C > exp then
                 [WriteError (ErrNew ''token has expired'') StatusUnauthorized]
               else
                 Call_writeCookie tokenStr (Unix exp) #
                 (case writeCookie C tokenStr (Unix exp) of
                    Some err \<Rightarrow> [WriteError err StatusInternalServerError]
                  | None \<Rightarrow> [WriteSuccess])))"

definition loginPOST :: "'b collaborators \<Rightarrow> 'b Request \<Rightarrow> 'b event list" where
  "loginPOST C req =
     (let email = PostFormValue req ''email'';
          pw = PostFormValue req ''password''
      in if email \<noteq> '''' \<and> pw \<noteq> '''' then loginPOSTCredentials C req email pw
         else loginPOSTToken C req)"

text \<open>
  Whether a handler run tried the token: it asked the request for a token or validated one.
\<close>

definition token_event :: "'b event \<Rightarrow> bool" where
  "token_event e = (case e of Call_tokenFromRequest \<Rightarrow> True | Call_ValidateToken t \<Rightarrow> True | _ \<Rightarrow> False)"

text \<open>
  Collaborators for running the handlers: the users Alice and Bob, and Carol whose
  subject is empty; a password that matches its hash when the hash is \<open>hash-\<close> followed
  by the password; the symbolic JWT library with the loaded key set, at second 5; and a
  cookie writer that never fails.
\<close>

definition carol :: User where
  "carol = \<lparr>User_ID = 3, User_Sub = '''', User_Email = ''carol@example.com'',
            User_PasswordHash = ''hash-c'', User_Tier = 1, User_QuotaExceeded = False\<rparr>"

definition example_collaborators :: "sym_bytes collaborators" where
  "example_collaborators =
     \<lparr>db_UserByEmail = (\<lambda>email. case find (\<lambda>u. User_Email u = email) [alice, bob, carol] of
                                    None \<Rightarrow> Inl (ErrNew ''user not found'')
                                  | Some u \<Rightarrow> Inr u),
      hash_Compare = (\<lambda>pw h. if h = ''hash-'' @ pw then None else Some (ErrNew ''mismatch'')),
      jwt_TokenForUser = (\<lambda>email sub.
         case TokenForUser (sym_libs disk) globals_loaded 5000000000 email sub of
           Ok tk \<Rightarrow> (case TokenSerialize (sym_libs disk) globals_loaded tk of
                       Ok b \<Rightarrow> Inr (tk, b)
                     | Err e \<Rightarrow> Inl e
                     | Panic msg \<Rightarrow> Inl (ErrNew msg))
         | Err e \<Rightarrow> Inl e
         | Panic msg \<Rightarrow> Inl (ErrNew msg)),
      jwt_ValidateToken = ValidateToken (sym_libs disk) globals_loaded 5000000000,
      tokenFromRequest = (\<lambda>req. case Token req of
                                   None \<Rightarrow> Inl (ErrNew ''no token found'')
                                 | Some t \<Rightarrow> Inr t),
      writeCookie = (\<lambda>t exp. None),
      time_Now = 5000000000\<rparr>"

definition request_with_credentials :: "sym_bytes Request" where
  "request_with_credentials =
     \<lparr>PostForm = [(''email'', ''alice@example.com''), (''password'', ''a'')],
      Token = Some fresh_signed\<rparr>"

definition request_with_token_only :: "sym_bytes Request" where
  "request_with_token_only = \<lparr>PostForm = [(''email'', ''alice@example.com'')], Token = Some fresh_signed\<rparr>"

definition request_wrong_password :: "sym_bytes Request" where
  "request_wrong_password =
     \<lparr>PostForm = [(''email'', ''alice@example.com''), (''password'', ''x'')],
      Token = Some fresh_signed\<rparr>"

definition request_unknown_user :: "sym_bytes Request" where
  "request_unknown_user =
     \<lparr>PostForm = [(''email'', ''eve@example.com''), (''password'', ''e'')],
      Token = Some fresh_signed\<rparr>"

definition request_carol :: "sym_bytes Request" where
  "request_carol =
     \<lparr>PostForm = [(''email'', ''carol@example.com''), (''password'', ''c'')],
      Token = Some fresh_signed\<rparr>"

definition request_without_token :: "sym_bytes Request" where
  "request_without_token = \<lparr>PostForm = [], Token = None\<rparr>"

definition request_with_forged_token :: "sym_bytes Request" where
  "request_with_forged_token = \<lparr>PostForm = [], Token = Some expired_forged\<rparr>"

text \<open>The same collaborators with a cookie writer that fails, and with a clock at second 40.\<close>

definition collaborators_cookie_failure :: "sym_bytes collaborators" where
  "collaborators_cookie_failure =
     example_collaborators\<lparr>writeCookie := (\<lambda>t exp. Some (ErrNew ''failed to encode the cookie''))\<rparr>"

definition collaborators_late_clock :: "sym_bytes collaborators" where
  "collaborators_late_clock = example_collaborators\<lparr>time_Now := 40000000000\<rparr>"

text \<open>The token that the example library issues for Alice at second 5, and its serialization.\<close>

definition alice_token :: token where
  "alice_token =
     [(''session'', Val (IMap [(''active'', IBool True),
                               (''identity'', IMap [(''traits'',
                                  IMap [(''email'', IStr ''alice@example.com'')])])])),
      (''sub'', Val (IStr ''sub-alice'')),
      (''iss'', Val (IStr ''https://siasky.net'')),
      (''iat'', Val (INum 5)),
      (''exp'', Val (INum 2592005))]"

definition alice_cookie :: sym_bytes where
  "alice_cookie = SymJWS ''RS256'' ''k1'' alice_token 42"

definition fresh_claims :: token where
  "fresh_claims = [(''exp'', Val (INum 30)), (''sub'', Val (IStr ''u1''))]"

section \<open>Properties of package jwt\<close>

lemma int64_id: "- 9223372036854775808 \<le> x \<Longrightarrow> x < 9223372036854775808 \<Longrightarrow> int64 x = x"
  by (simp add: int64_def)

lemmas sym_defs = sym_libs_def sym_Unmarshal_def sym_PublicSetOf_def sym_Sign_def sym_Parse_def
  sym_Parse_WithKeySet_def disk_def signing_key_def globals_at_start_def globals_loaded_def

text \<open>
  Claim C6. \<open>ValidateToken\<close> looks at the expiry only after the library has parsed the
  token and verified its signature against the public key set. When the library rejects
  the token (corrupted signature, malformed structure) the library's error is returned
  as it is, which is never \<open>ErrTokenExpired\<close>, whatever the expiry and the current time.
  When the library accepts the token, the result is \<open>ErrTokenExpired\<close> exactly when the
  expiry is strictly before the current time, and the token otherwise.
\<close>

theorem ValidateToken_expiry_after_signature:
  "(jwt_Parse_WithKeySet L t (AccountsPublicJWKS g) = Inl e \<longrightarrow>
      ValidateToken L g now t = Inl (ErrExternal e) \<and> ValidateToken L g now t \<noteq> Inl ErrTokenExpired) \<and>
   (jwt_Parse_WithKeySet L t (AccountsPublicJWKS g) = Inr tok \<and> Expiration tok < now \<longrightarrow>
      ValidateToken L g now t = Inl ErrTokenExpired) \<and>
   (jwt_Parse_WithKeySet L t (AccountsPublicJWKS g) = Inr tok \<and> \<not> Expiration tok < now \<longrightarrow>
      ValidateToken L g now t = Inr tok)"
  by (simp add: ValidateToken_def)

text \<open>
  At second 20 a token that expired at second 10: with a forged signature it fails with
  the verification error, with the right signature it fails as expired; at second 5 the
  well-signed token is accepted.
\<close>

theorem ValidateToken_expiry_after_signature_witness:
  "Expiration expired_claims < 20000000000 \<and>
   ValidateToken (sym_libs disk) globals_loaded 20000000000 expired_forged
     = Inl (ErrExternal ''failed to verify signature'') \<and>
   ValidateToken (sym_libs disk) globals_loaded 20000000000 expired_forged \<noteq> Inl ErrTokenExpired \<and>
   ValidateToken (sym_libs disk) globals_loaded 20000000000 expired_signed = Inl ErrTokenExpired \<and>
   ValidateToken (sym_libs disk) globals_loaded 5000000000 expired_signed = Inr expired_claims"
proof -
  have exp: "Expiration expired_claims = 10000000000"
    by (simp add: Expiration_def Get_def expired_claims_def time_Unix_def)
  have forged: "jwt_Parse_WithKeySet (sym_libs disk) expired_forged (AccountsPublicJWKS globals_loaded)
      = Inl ''failed to verify signature''"
    by (simp add: sym_defs expired_forged_def)
  have signed: "jwt_Parse_WithKeySet (sym_libs disk) expired_signed (AccountsPublicJWKS globals_loaded)
      = Inr expired_claims"
    by (simp add: sym_defs expired_signed_def)
  from ValidateToken_expiry_after_signature
         [of "sym_libs disk" expired_forged globals_loaded "''failed to verify signature''" 20000000000]
       ValidateToken_expiry_after_signature
         [of "sym_libs disk" expired_signed globals_loaded _ 20000000000 expired_claims]
       ValidateToken_expiry_after_signature
         [of "sym_libs disk" expired_signed globals_loaded _ 5000000000 expired_claims]
       forged signed exp
  show ?thesis by simp
qed

text \<open>
  Claim C9, as the code has it. Loading fails with the file system's error when the file
  cannot be read and with the decoder's error when its contents are malformed, and in
  both cases leaves the cached key sets as they were. A readable, well-formed file is
  loaded with success whatever the number of its keys; when it holds zero keys the
  emptiness is reported later, by \<open>signatureAlgoAndKey\<close> (the error
  \<open>JWKS is empty\<close>), when a signing key is asked for.
\<close>

theorem LoadAccountsKeySet_errors:
  "(ReadFile L (AccountsJWKSFile g) = Inl e \<longrightarrow>
      LoadAccountsKeySet L g = (Some (ErrExternal e), g)) \<and>
   (ReadFile L (AccountsJWKSFile g) = Inr b \<and> json_Unmarshal L b = Inl e \<longrightarrow>
      LoadAccountsKeySet L g = (Some (ErrExternal e), g)) \<and>
   (ReadFile L (AccountsJWKSFile g) = Inr b \<and> json_Unmarshal L b = Inr keys \<and>
    jwk_PublicSetOf L keys = Inr pub \<longrightarrow>
      LoadAccountsKeySet L g = (None, g\<lparr>AccountsJWKS := Some keys, AccountsPublicJWKS := Some pub\<rparr>) \<and>
      (keys = [] \<longrightarrow>
         signatureAlgoAndKey L (snd (LoadAccountsKeySet L g)) = Err (ErrNew ''JWKS is empty'')))"
  by (auto simp add: LoadAccountsKeySet_def signatureAlgoAndKey_def)

text \<open>A missing file, a broken file and a file with an empty key set.\<close>

theorem LoadAccountsKeySet_errors_witness:
  "LoadAccountsKeySet (sym_libs disk) (globals_at_start ''missing.json'') =
     (Some (ErrExternal ''open: no such file or directory''), globals_at_start ''missing.json'') \<and>
   LoadAccountsKeySet (sym_libs disk) (globals_at_start ''broken.json'') =
     (Some (ErrExternal ''failed to unmarshal JWKS''), globals_at_start ''broken.json'') \<and>
   fst (LoadAccountsKeySet (sym_libs disk) (globals_at_start ''empty.json'')) = None \<and>
   signatureAlgoAndKey (sym_libs disk) (snd (LoadAccountsKeySet (sym_libs disk) (globals_at_start ''empty.json'')))
     = Err (ErrNew ''JWKS is empty'')"
proof -
  have missing: "ReadFile (sym_libs disk) (AccountsJWKSFile (globals_at_start ''missing.json''))
      = Inl ''open: no such file or directory''"
    by (simp add: sym_defs)
  have broken: "ReadFile (sym_libs disk) (AccountsJWKSFile (globals_at_start ''broken.json''))
      = Inr (SymRaw ''{'') \<and> json_Unmarshal (sym_libs disk) (SymRaw ''{'') = Inl ''failed to unmarshal JWKS''"
    by (simp add: sym_defs)
  have empty: "ReadFile (sym_libs disk) (AccountsJWKSFile (globals_at_start ''empty.json''))
      = Inr (SymKeys []) \<and> json_Unmarshal (sym_libs disk) (SymKeys []) = Inr [] \<and>
      jwk_PublicSetOf (sym_libs disk) [] = Inr []"
    by (simp add: sym_defs)
  from LoadAccountsKeySet_errors
         [of "sym_libs disk" "globals_at_start ''missing.json''" "''open: no such file or directory''"]
       missing
  have 1: "LoadAccountsKeySet (sym_libs disk) (globals_at_start ''missing.json'') =
     (Some (ErrExternal ''open: no such file or directory''), globals_at_start ''missing.json'')"
    by blast
  from LoadAccountsKeySet_errors
         [of "sym_libs disk" "globals_at_start ''broken.json''" "''failed to unmarshal JWKS''" "SymRaw ''{''"]
       broken
  have 2: "LoadAccountsKeySet (sym_libs disk) (globals_at_start ''broken.json'') =
     (Some (ErrExternal ''failed to unmarshal JWKS''), globals_at_start ''broken.json'')"
    by blast
  from LoadAccountsKeySet_errors
         [of "sym_libs disk" "globals_at_start ''empty.json''" _ "SymKeys []" "[]" "[]"]
       empty
  have 3: "fst (LoadAccountsKeySet (sym_libs disk) (globals_at_start ''empty.json'')) = None \<and>
   signatureAlgoAndKey (sym_libs disk) (snd (LoadAccountsKeySet (sym_libs disk) (globals_at_start ''empty.json'')))
     = Err (ErrNew ''JWKS is empty'')"
    by auto
  from 1 2 3 show ?thesis by blast
qed

text \<open>
  Claim C9 as stated fails: loading a readable, well-formed file with zero keys does not
  fail. It returns no error and caches the empty set.
\<close>

theorem LoadAccountsKeySet_empty_set_counterexample:
  "LoadAccountsKeySet (sym_libs disk) (globals_at_start ''empty.json'') =
     (None, (globals_at_start ''empty.json'')\<lparr>AccountsJWKS := Some [], AccountsPublicJWKS := Some []\<rparr>)"
  by (simp add: LoadAccountsKeySet_def sym_defs)

lemma TokenFromContext_no_panic: "TokenFromContext ctx \<noteq> Panic msg"
  by (simp add: TokenFromContext_def split: option.splits ctx_value.splits result.splits)

lemma TokenFromContext_recover:
  "TokenFields t = Panic msg \<Longrightarrow>
   TokenFromContext (Some (CtxToken t)) =
     Err (ErrNew (''failed to parse token from context. error: '' @ msg))"
  by (simp add: TokenFromContext_def)

lemma TokenFromContext_pass:
  "TokenFields t = Ok r \<Longrightarrow> TokenFromContext (Some (CtxToken t)) = Ok r"
  by (simp add: TokenFromContext_def)

lemma TokenFields_session:
  "Get t ''sub'' = Some (Val (IStr sub)) \<Longrightarrow> sub \<noteq> '''' \<Longrightarrow> Get t ''session'' = Some (Val session) \<Longrightarrow>
   TokenFields t =
     (if \<not> is_map session then
        Panic (conversion_panic (type_name session) ''map[string]interface {}'')
      else if \<not> is_map (index session ''identity'') then
        Panic (conversion_panic (type_name (index session ''identity'')) ''map[string]interface {}'')
      else if \<not> is_map (index (index session ''identity'') ''traits'') then
        Panic (conversion_panic (type_name (index (index session ''identity'') ''traits''))
                 ''map[string]interface {}'')
      else if index (index session ''identity'') ''traits'' = INilMap then Ok (sub, '''', t)
      else (case index (index (index session ''identity'') ''traits'') ''email'' of
              IStr email \<Rightarrow> Ok (sub, email, t)
            | x \<Rightarrow> Panic (conversion_panic (type_name x) ''string'')))"
  by (simp add: TokenFields_def Let_def)

text \<open>
  Claim C3, as the code has it. \<open>TokenFromContext\<close> never panics: every panic of
  \<open>TokenFields\<close> is recovered and returned as the error
  \<open>failed to parse token from context. error: \<close> followed by the recovered value. For
  claims with a non-empty string \<open>sub\<close> and a present session block: when the session is
  a map whose \<open>identity.traits.email\<close> is a string, both functions return the subject
  and that email; when the email is missing from the traits or is not a string, and when
  the session, its identity or its traits is not a map, \<open>TokenFields\<close> panics with the
  message of the failed type assertion and \<open>TokenFromContext\<close> returns the error that
  carries it. A missing email is not returned as the empty string.
\<close>

theorem TokenFromContext_recovers:
  "TokenFromContext ctx \<noteq> Panic msg \<and>
   (TokenFields t = Panic msg \<longrightarrow>
      TokenFromContext (Some (CtxToken t)) =
        Err (ErrNew (''failed to parse token from context. error: '' @ msg))) \<and>
   (Get t ''sub'' = Some (Val (IStr sub)) \<and> sub \<noteq> '''' \<and> Get t ''session'' = Some (Val session) \<longrightarrow>
      (session = IMap m \<and> map_of m ''identity'' = Some (IMap mi) \<and>
       map_of mi ''traits'' = Some (IMap mt) \<longrightarrow>
         (map_of mt ''email'' = Some (IStr email) \<longrightarrow>
            TokenFields t = Ok (sub, email, t) \<and>
            TokenFromContext (Some (CtxToken t)) = Ok (sub, email, t)) \<and>
         (map_of mt ''email'' = None \<longrightarrow>
            TokenFields t = Panic (conversion_panic ''nil'' ''string'') \<and>
            TokenFromContext (Some (CtxToken t)) =
              Err (ErrNew (''failed to parse token from context. error: '' @
                           conversion_panic ''nil'' ''string''))) \<and>
         (map_of mt ''email'' = Some x \<and> (\<forall>e. x \<noteq> IStr e) \<longrightarrow>
            TokenFields t = Panic (conversion_panic (type_name x) ''string'') \<and>
            TokenFromContext (Some (CtxToken t)) =
              Err (ErrNew (''failed to parse token from context. error: '' @
                           conversion_panic (type_name x) ''string'')))) \<and>
      (\<not> is_map session \<longrightarrow>
         TokenFields t = Panic (conversion_panic (type_name session) ''map[string]interface {}'') \<and>
         TokenFromContext (Some (CtxToken t)) =
           Err (ErrNew (''failed to parse token from context. error: '' @
                        conversion_panic (type_name session) ''map[string]interface {}''))) \<and>
      (is_map session \<and> \<not> is_map (index session ''identity'') \<longrightarrow>
         TokenFields t =
           Panic (conversion_panic (type_name (index session ''identity'')) ''map[string]interface {}'') \<and>
         TokenFromContext (Some (CtxToken t)) =
           Err (ErrNew (''failed to parse token from context. error: '' @
                        conversion_panic (type_name (index session ''identity''))
                          ''map[string]interface {}''))) \<and>
      (is_map session \<and> is_map (index session ''identity'') \<and>
       \<not> is_map (index (index session ''identity'') ''traits'') \<longrightarrow>
         TokenFields t =
           Panic (conversion_panic (type_name (index (index session ''identity'') ''traits''))
                    ''map[string]interface {}'') \<and>
         TokenFromContext (Some (CtxToken t)) =
           Err (ErrNew (''failed to parse token from context. error: '' @
                        conversion_panic (type_name (index (index session ''identity'') ''traits''))
                          ''map[string]interface {}''))))"
proof -
  have fields: "Get t ''sub'' = Some (Val (IStr sub)) \<and> sub \<noteq> '''' \<and> Get t ''session'' = Some (Val session) \<longrightarrow>
      (session = IMap m \<and> map_of m ''identity'' = Some (IMap mi) \<and>
       map_of mi ''traits'' = Some (IMap mt) \<longrightarrow>
         (map_of mt ''email'' = Some (IStr email) \<longrightarrow> TokenFields t = Ok (sub, email, t)) \<and>
         (map_of mt ''email'' = None \<longrightarrow> TokenFields t = Panic (conversion_panic ''nil'' ''string'')) \<and>
         (map_of mt ''email'' = Some x \<and> (\<forall>e. x \<noteq> IStr e) \<longrightarrow>
            TokenFields t = Panic (conversion_panic (type_name x) ''string''))) \<and>
      (\<not> is_map session \<longrightarrow>
         TokenFields t = Panic (conversion_panic (type_name session) ''map[string]interface {}'')) \<and>
      (is_map session \<and> \<not> is_map (index session ''identity'') \<longrightarrow>
         TokenFields t =
           Panic (conversion_panic (type_name (index session ''identity'')) ''map[string]interface {}'')) \<and>
      (is_map session \<and> is_map (index session ''identity'') \<and>
       \<not> is_map (index (index session ''identity'') ''traits'') \<longrightarrow>
         TokenFields t =
           Panic (conversion_panic (type_name (index (index session ''identity'') ''traits''))
                    ''map[string]interface {}''))"
    by (auto simp add: TokenFields_session is_map_def index_def type_name_def split: iface.splits)
  show ?thesis
    using fields TokenFromContext_no_panic [of ctx msg] TokenFromContext_recover [of t]
      TokenFromContext_pass [of t]
    by blast
qed

text \<open>
  Claims with an email, without one, with a number as email, with a string as session,
  with no identity in the session, and with a list as traits.
\<close>

theorem TokenFromContext_recovers_witness:
  "TokenFields claims_with_email = Ok (''u1'', ''a@b.c'', claims_with_email) \<and>
   TokenFromContext (Some (CtxToken claims_with_email)) = Ok (''u1'', ''a@b.c'', claims_with_email) \<and>
   TokenFields claims_without_email = Panic ''interface conversion: interface {} is nil, not string'' \<and>
   TokenFromContext (Some (CtxToken claims_without_email)) =
     Err (ErrNew ''failed to parse token from context. error: interface conversion: interface {} is nil, not string'') \<and>
   TokenFromContext (Some (CtxToken claims_email_number)) =
     Err (ErrNew ''failed to parse token from context. error: interface conversion: interface {} is float64, not string'') \<and>
   TokenFromContext (Some (CtxToken claims_session_string)) =
     Err (ErrNew ''failed to parse token from context. error: interface conversion: interface {} is string, not map[string]interface {}'') \<and>
   TokenFromContext (Some (CtxToken claims_without_identity)) =
     Err (ErrNew ''failed to parse token from context. error: interface conversion: interface {} is nil, not map[string]interface {}'') \<and>
   TokenFromContext (Some (CtxToken claims_traits_list)) =
     Err (ErrNew ''failed to parse token from context. error: interface conversion: interface {} is []interface {}, not map[string]interface {}'')"
proof -
  have 1: "TokenFields claims_with_email = Ok (''u1'', ''a@b.c'', claims_with_email) \<and>
           TokenFromContext (Some (CtxToken claims_with_email)) = Ok (''u1'', ''a@b.c'', claims_with_email)"
    using TokenFromContext_recovers
      [where t = claims_with_email and sub = "''u1''"
         and session = "IMap [(''active'', IBool True),
                              (''identity'', IMap [(''traits'', IMap [(''email'', IStr ''a@b.c'')])])]"
         and m = "[(''active'', IBool True),
                   (''identity'', IMap [(''traits'', IMap [(''email'', IStr ''a@b.c'')])])]"
         and mi = "[(''traits'', IMap [(''email'', IStr ''a@b.c'')])]"
         and mt = "[(''email'', IStr ''a@b.c'')]" and email = "''a@b.c''"]
    by (simp add: claims_with_email_def Get_def)
  have 2: "TokenFields claims_without_email = Panic ''interface conversion: interface {} is nil, not string'' \<and>
           TokenFromContext (Some (CtxToken claims_without_email)) =
             Err (ErrNew ''failed to parse token from context. error: interface conversion: interface {} is nil, not string'')"
    using TokenFromContext_recovers
      [where t = claims_without_email and sub = "''u1''"
         and session = "IMap [(''active'', IBool True), (''identity'', IMap [(''traits'', IMap [])])]"
         and m = "[(''active'', IBool True), (''identity'', IMap [(''traits'', IMap [])])]"
         and mi = "[(''traits'', IMap [])]" and mt = "[]"]
    by (simp add: claims_without_email_def Get_def conversion_panic_def)
  have 3: "TokenFromContext (Some (CtxToken claims_email_number)) =
             Err (ErrNew ''failed to parse token from context. error: interface conversion: interface {} is float64, not string'')"
    using TokenFromContext_recovers
      [where t = claims_email_number and sub = "''u1''"
         and session = "IMap [(''identity'', IMap [(''traits'', IMap [(''email'', INum 7)])])]"
         and m = "[(''identity'', IMap [(''traits'', IMap [(''email'', INum 7)])])]"
         and mi = "[(''traits'', IMap [(''email'', INum 7)])]"
         and mt = "[(''email'', INum 7)]" and x = "INum 7"]
    by (simp add: claims_email_number_def Get_def conversion_panic_def type_name_def)
  have 4: "TokenFromContext (Some (CtxToken claims_session_string)) =
             Err (ErrNew ''failed to parse token from context. error: interface conversion: interface {} is string, not map[string]interface {}'')"
    using TokenFromContext_recovers
      [where t = claims_session_string and sub = "''u1''" and session = "IStr ''yes''"]
    by (simp add: claims_session_string_def Get_def conversion_panic_def type_name_def is_map_def)
  have 5: "TokenFromContext (Some (CtxToken claims_without_identity)) =
             Err (ErrNew ''failed to parse token from context. error: interface conversion: interface {} is nil, not map[string]interface {}'')"
    using TokenFromContext_recovers
      [where t = claims_without_identity and sub = "''u1''"
         and session = "IMap [(''active'', IBool True)]"]
    by (simp add: claims_without_identity_def Get_def conversion_panic_def type_name_def is_map_def
          index_def)
  have 6: "TokenFromContext (Some (CtxToken claims_traits_list)) =
             Err (ErrNew ''failed to parse token from context. error: interface conversion: interface {} is []interface {}, not map[string]interface {}'')"
    using TokenFromContext_recovers
      [where t = claims_traits_list and sub = "''u1''"
         and session = "IMap [(''identity'', IMap [(''traits'', ISlice [])])]"]
    by (simp add: claims_traits_list_def Get_def conversion_panic_def type_name_def is_map_def
          index_def)
  from 1 2 3 4 5 6 show ?thesis by blast
qed

text \<open>
  Claim C3 as stated fails on claims with a subject and a session block whose traits
  carry no email: \<open>TokenFields\<close> panics, and \<open>TokenFromContext\<close> returns an error;
  neither returns the subject with the empty string as email.
\<close>

theorem TokenFields_missing_email_counterexample:
  "TokenFields claims_without_email = Panic ''interface conversion: interface {} is nil, not string'' \<and>
   TokenFromContext (Some (CtxToken claims_without_email)) =
     Err (ErrNew ''failed to parse token from context. error: interface conversion: interface {} is nil, not string'')"
  by (simp add: TokenFromContext_def TokenFields_def claims_without_email_def Get_def is_map_def
        index_def conversion_panic_def type_name_def)

lemma tokenForUser_ok:
  "email \<noteq> '''' \<Longrightarrow> sub \<noteq> '''' \<Longrightarrow>
   tokenForUser g now email sub =
     Inr [(''session'', SessionStruct \<lparr>Active = True, Identity = \<lparr>Traits = \<lparr>Email = email\<rparr>\<rparr>\<rparr>),
          (''sub'', Val (IStr sub)),
          (''iss'', Val (IStr (PortalName g))),
          (''iat'', Val (INum (Unix now))),
          (''exp'', Val (INum (int64 (Unix now + TTL g))))]"
  by (simp add: tokenForUser_def Set_claim_def)

lemma json_roundtrip_issued:
  "json_roundtrip [(''session'', SessionStruct \<lparr>Active = True, Identity = \<lparr>Traits = \<lparr>Email = email\<rparr>\<rparr>\<rparr>),
          (''sub'', Val (IStr sub)), (''iss'', Val (IStr p)), (''iat'', Val (INum i)), (''exp'', Val (INum x))]
   = [(''session'', Val (IMap [(''active'', IBool True),
           (''identity'', IMap [(''traits'', IMap [(''email'', IStr email)])])])),
          (''sub'', Val (IStr sub)), (''iss'', Val (IStr p)), (''iat'', Val (INum i)), (''exp'', Val (INum x))]"
  by (simp add: json_roundtrip_def marshal_claim_def marshal_session_def)

lemma json_roundtrip_decoded:
  "json_roundtrip [(''session'', Val s), (''sub'', Val (IStr sub)), (''iss'', Val (IStr p)),
                   (''iat'', Val (INum i)), (''exp'', Val (INum x))]
   = [(''session'', Val s), (''sub'', Val (IStr sub)), (''iss'', Val (IStr p)),
      (''iat'', Val (INum i)), (''exp'', Val (INum x))]"
  by (simp add: json_roundtrip_def marshal_claim_def)

lemma globals_loaded_by_load:
  "LoadAccountsKeySet (sym_libs disk) (globals_at_start ''jwks.json'') = (None, globals_loaded)"
  by (simp add: LoadAccountsKeySet_def sym_defs)

text \<open>
  Claim C5. For a non-empty subject id and a non-empty email, \<open>TokenForUser\<close> issues a
  token, \<open>TokenSerialize\<close> serializes it, \<open>ValidateToken\<close> accepts the serialized token
  and \<open>TokenFields\<close> returns exactly that subject id and email. The setting is the one
  the round trip needs: the loaded key set has a usable first key (\<open>signatureAlgoAndKey\<close>
  succeeds); the library signs with it, and parsing what it signed, with or without
  verification against the public key set, gives back the claims as JSON decodes them;
  the expiry \<open>now + TTL\<close> fits an \<open>int64\<close>; and the token is validated at a time \<open>now'\<close>
  not after its expiry.
\<close>

theorem token_round_trip:
  assumes ident: "email \<noteq> ''''" "sub \<noteq> ''''"
    and key: "signatureAlgoAndKey L g = Ok (alg, key)"
    and sign: "\<forall>t. \<exists>b. jwt_Sign L t alg key = Inr b"
    and parse: "\<forall>t b. jwt_Sign L t alg key = Inr b \<longrightarrow> jwt_Parse L b = Inr (json_roundtrip t)"
    and verify: "\<forall>t b. jwt_Sign L t alg key = Inr b \<longrightarrow>
                   jwt_Parse_WithKeySet L b (AccountsPublicJWKS g) = Inr (json_roundtrip t)"
    and range: "- 9223372036854775808 \<le> Unix now + TTL g" "Unix now + TTL g < 9223372036854775808"
    and alive: "now' \<le> time_Unix (Unix now + TTL g)"
  shows "\<exists>tk b tk'. TokenForUser L g now email sub = Ok tk \<and>
                    TokenSerialize L g tk = Ok b \<and>
                    ValidateToken L g now' b = Inr tk' \<and>
                    TokenFields tk' = Ok (sub, email, tk')"
proof -
  let ?x = "Unix now + TTL g"
  let ?t = "[(''session'', SessionStruct \<lparr>Active = True, Identity = \<lparr>Traits = \<lparr>Email = email\<rparr>\<rparr>\<rparr>),
          (''sub'', Val (IStr sub)), (''iss'', Val (IStr (PortalName g))),
          (''iat'', Val (INum (Unix now))), (''exp'', Val (INum ?x))]"
  let ?tk = "[(''session'', Val (IMap [(''active'', IBool True),
           (''identity'', IMap [(''traits'', IMap [(''email'', IStr email)])])])),
          (''sub'', Val (IStr sub)), (''iss'', Val (IStr (PortalName g))),
          (''iat'', Val (INum (Unix now))), (''exp'', Val (INum ?x))]"
  have built: "tokenForUser g now email sub = Inr ?t"
    using ident range by (simp add: tokenForUser_ok int64_id)
  obtain b1 where b1: "jwt_Sign L ?t alg key = Inr b1" using sign by blast
  have p1: "jwt_Parse L b1 = Inr ?tk"
    using parse [rule_format, OF b1] by (simp only: json_roundtrip_issued)
  have issued: "TokenForUser L g now email sub = Ok ?tk"
    by (simp add: TokenForUser_def key built b1 p1)
  obtain b2 where b2: "jwt_Sign L ?tk alg key = Inr b2" using sign by blast
  have serialized: "TokenSerialize L g ?tk = Ok b2"
    by (simp add: TokenSerialize_def key b2)
  have p2: "jwt_Parse_WithKeySet L b2 (AccountsPublicJWKS g) = Inr ?tk"
    using verify [rule_format, OF b2] by (simp only: json_roundtrip_decoded)
  have exp: "Expiration ?tk = time_Unix ?x"
    by (simp add: Expiration_def Get_def)
  have validated: "ValidateToken L g now' b2 = Inr ?tk"
    using alive by (simp add: ValidateToken_def p2 exp)
  have fields: "TokenFields ?tk = Ok (sub, email, ?tk)"
    using ident by (simp add: TokenFields_def Get_def is_map_def index_def)
  from issued serialized validated fields show ?thesis by blast
qed

text \<open>
  With the symbolic libraries and the key set loaded from the one-key file: a token
  issued at second 5 for \<open>u1\<close>, \<open>a@b.c\<close> and validated at second 6.
\<close>

theorem token_round_trip_witness:
  "\<exists>tk b tk'. TokenForUser (sym_libs disk) globals_loaded 5000000000 ''a@b.c'' ''u1'' = Ok tk \<and>
              TokenSerialize (sym_libs disk) globals_loaded tk = Ok b \<and>
              ValidateToken (sym_libs disk) globals_loaded 6000000000 b = Inr tk' \<and>
              TokenFields tk' = Ok (''u1'', ''a@b.c'', tk')"
proof -
  have key: "signatureAlgoAndKey (sym_libs disk) globals_loaded = Ok (''RS256'', signing_key)"
    by (simp add: signatureAlgoAndKey_def sym_defs Let_def)
  have sign: "\<forall>t. \<exists>b. jwt_Sign (sym_libs disk) t ''RS256'' signing_key = Inr b"
    by (simp add: sym_defs)
  have parse: "\<forall>t b. jwt_Sign (sym_libs disk) t ''RS256'' signing_key = Inr b \<longrightarrow>
                 jwt_Parse (sym_libs disk) b = Inr (json_roundtrip t)"
    by (auto simp add: sym_defs)
  have verify: "\<forall>t b. jwt_Sign (sym_libs disk) t ''RS256'' signing_key = Inr b \<longrightarrow>
                 jwt_Parse_WithKeySet (sym_libs disk) b (AccountsPublicJWKS globals_loaded)
                   = Inr (json_roundtrip t)"
    by (auto simp add: sym_defs)
  have range: "- 9223372036854775808 \<le> Unix 5000000000 + TTL globals_loaded"
      "Unix 5000000000 + TTL globals_loaded < 9223372036854775808"
    by (simp_all add: Unix_def sym_defs)
  have alive: "6000000000 \<le> time_Unix (Unix 5000000000 + TTL globals_loaded)"
    by (simp add: Unix_def time_Unix_def sym_defs)
  have ident: "''a@b.c'' \<noteq> ''''" "''u1'' \<noteq> ''''" by simp_all
  from token_round_trip [OF ident key sign parse verify range alive]
  show ?thesis .
qed

section \<open>Properties of package database\<close>

lemmas store_defs = db_one_key_def db_two_keys_def pub_key_doc_def bson_of_PubAPIKeyRecord_def
  alice_def bob_def any_skylink_def

lemmas mongo_defs = CountDocuments_def InsertOne_def UpdateOne_def DeleteOne_def matches_def
  apply_update_def set_field_def

lemma validate_skylinks_error: "validate_skylinks v xs = Some e \<Longrightarrow> e = ErrInvalidSkylink"
  by (induction xs) (auto split: if_splits)

text \<open>
  For a valid user whose public API keys are counted as \<open>n\<close>, \<open>PubAPIKeyCreate\<close> refuses
  with \<open>ErrMaxNumAPIKeysExceeded\<close> exactly when \<open>n\<close> is greater than the maximum.
\<close>

lemma PubAPIKeyCreate_refusal:
  assumes "User_ID user \<noteq> 0"
    and "CountDocuments db (staticPubAPIKeys db) [(''user_id'', BObjectID (User_ID user))] = Inr n"
  shows "(fst (PubAPIKeyCreate maxKeys v k i now db user skylinks) = Inl ErrMaxNumAPIKeysExceeded)
           = (n > maxKeys)"
  using assms
  by (auto simp add: PubAPIKeyCreate_def Let_def split: option.splits sum.splits prod.splits
           dest: validate_skylinks_error)

text \<open>
  Claim C1, on the code. With a maximum of two keys per user and a user who holds two
  public API keys, the next \<open>PubAPIKeyCreate\<close> is not refused: the count \<open>2\<close> is not
  greater than the maximum, the call returns the new record and a document is stored
  (in the collection of the API keys, not of the public API keys).
\<close>

theorem PubAPIKeyCreate_at_maximum:
  "CountDocuments db_two_keys (staticPubAPIKeys db_two_keys) [(''user_id'', BObjectID (User_ID alice))] = Inr 2 \<and>
   PubAPIKeyCreate 2 any_skylink ''KEY-NEW'' 12 77 db_two_keys alice [''A''] =
     (Inr \<lparr>Rec_ID = 12, Rec_UserID = 1, Rec_Key = ''KEY-NEW'', Rec_Skylinks = [''A''], Rec_CreatedAt = 77\<rparr>,
      db_two_keys\<lparr>staticAPIKeys :=
        [[(''_id'', BObjectID 12), (''user_id'', BObjectID 1), (''key'', BString ''KEY-NEW''),
          (''skylinks'', BArray [BString ''A'']), (''created_at'', BTime 77)]]\<rparr>)"
  by (simp add: PubAPIKeyCreate_def store_defs mongo_defs)

text \<open>
  Claim C2, on the code. On a key holding \<open>B\<close> and \<open>C\<close>, \<open>PubAPIKeyPatch\<close> with
  \<open>A\<close> to add and \<open>B\<close> to remove pushes \<open>A\<close>, then sends an update whose key is
  \<open>pull\<close> (without \<open>$\<close>) over the added skylinks; the driver refuses it. The call
  returns that error and the key holds \<open>B\<close>, \<open>C\<close> and \<open>A\<close>.
\<close>

theorem PubAPIKeyPatch_add_remove:
  "PubAPIKeyPatch any_skylink db_one_key alice ''KEY-A'' [''A''] [''B''] =
     (Some (ErrExternal ''update document must contain key beginning with $''),
      db_one_key\<lparr>staticPubAPIKeys := [pub_key_doc 10 1 ''KEY-A'' [''B'', ''C'', ''A'']]\<rparr>)"
  by (simp add: PubAPIKeyPatch_def store_defs mongo_defs)

text \<open>Neither \<open>PubAPIKeyUpdate\<close> nor \<open>PubAPIKeyPatch\<close> ever returns \<open>ErrNoDocuments\<close>.\<close>

lemma PubAPIKeyUpdate_never_NotFound:
  "fst (PubAPIKeyUpdate v db user pak skylinks) \<noteq> Some ErrNoDocuments"
  by (auto simp add: PubAPIKeyUpdate_def Let_def split: option.splits sum.splits prod.splits
           dest: validate_skylinks_error)

lemma PubAPIKeyPatch_never_NotFound:
  "fst (PubAPIKeyPatch v db user pak add remove) \<noteq> Some ErrNoDocuments"
  by (auto simp add: PubAPIKeyPatch_def Let_def split: option.splits sum.splits prod.splits if_splits
           dest: validate_skylinks_error)

text \<open>
  Claim C4, on the code. \<open>PubAPIKeyPatch\<close> filters by the key alone: Bob patches the key
  of Alice and the call succeeds. A patch of a key that does not exist changes nothing
  and returns no error. \<open>PubAPIKeyUpdate\<close> of a key that does not exist returns the
  driver's error for an update document without a \<open>$\<close> key, not a not-found error.
\<close>

theorem PubAPIKeyPatch_Update_not_found:
  "PubAPIKeyPatch any_skylink db_one_key bob ''KEY-A'' [''A''] [] =
     (None, db_one_key\<lparr>staticPubAPIKeys := [pub_key_doc 10 1 ''KEY-A'' [''B'', ''C'', ''A'']]\<rparr>) \<and>
   PubAPIKeyPatch any_skylink db_one_key alice ''KEY-X'' [''A''] [] = (None, db_one_key) \<and>
   PubAPIKeyUpdate any_skylink db_one_key alice ''KEY-X'' [''A''] =
     (Some (ErrExternal ''update document must contain key beginning with $''), db_one_key)"
  by (simp add: PubAPIKeyPatch_def PubAPIKeyUpdate_def store_defs mongo_defs)

text \<open>
  \<open>APIKeyDelete\<close> never returns \<open>ErrNoDocuments\<close>, while \<open>PubAPIKeyDelete\<close> returns it
  when no document has both the id and the owner.
\<close>

lemma APIKeyDelete_never_NotFound:
  "fst (APIKeyDelete db user ak) \<noteq> Some ErrNoDocuments"
  by (auto simp add: APIKeyDelete_def Let_def split: option.splits sum.splits prod.splits)

lemma delete_first_no_match: "\<not> list_ex p coll \<Longrightarrow> delete_first p coll = coll"
  by (induction coll) auto

lemma PubAPIKeyDelete_NotFound:
  assumes "User_ID user \<noteq> 0" and "ObjectIDFromHex pakID = Inr oid" and "\<not> unreachable db"
    and "\<not> list_ex (matches [(''_id'', BObjectID oid), (''user_id'', BObjectID (User_ID user))])
            (staticPubAPIKeys db)"
  shows "PubAPIKeyDelete db user pakID = (Some ErrNoDocuments, db)"
  using assms by (simp add: PubAPIKeyDelete_def DeleteOne_def delete_first_no_match)


lemma ObjectIDFromHex_b: "ObjectIDFromHex ''00000000000000000000000b'' = Inr 11"
  by (simp add: ObjectIDFromHex_def hex_digit_def)

text \<open>
  Claim C7, on the code. Deleting an API key that does not exist returns no error:
  \<open>APIKeyDelete\<close> drops the count of deleted documents. The same request on a public
  API key returns \<open>ErrNoDocuments\<close>.
\<close>

theorem APIKeyDelete_nothing_deleted:
  "APIKeyDelete db_one_key alice ''NO-SUCH-KEY'' = (None, db_one_key) \<and>
   PubAPIKeyDelete db_one_key alice ''00000000000000000000000b'' = (Some ErrNoDocuments, db_one_key)"
  by (simp add: APIKeyDelete_def PubAPIKeyDelete_def ObjectIDFromHex_b store_defs mongo_defs)

section \<open>Properties of package api\<close>

text \<open>
  Claim C8. When the statistics of the user are fetched, \<open>checkUserQuotas\<close> leaves the
  user's flag equal to: the number of uploads is greater than the tier's maximum, or the
  total size of the uploads is greater than the tier's storage. When that value is the
  flag the user already had, nothing is written: the user and the store are returned as
  they were. When it differs, the user with the new flag is passed to \<open>UserSave\<close>.
\<close>

theorem checkUserQuotas_flag:
  assumes "db_UserStats db u = Inr us"
  shows "(let q = UserLimits (User_Tier u);
              exceeded = (NumUploads us > MaxNumberUploads q \<or> TotalUploadsSize us > Storage q);
              r = checkUserQuotas db_UserStats db_UserSave UserLimits db u
          in User_QuotaExceeded (fst r) = exceeded \<and>
             (exceeded = User_QuotaExceeded u \<longrightarrow> r = (u, db)) \<and>
             (exceeded \<noteq> User_QuotaExceeded u \<longrightarrow>
                r = (u\<lparr>User_QuotaExceeded := exceeded\<rparr>,
                     snd (db_UserSave db (u\<lparr>User_QuotaExceeded := exceeded\<rparr>)))))"
  using assms by (auto simp add: checkUserQuotas_def Let_def)

text \<open>
  The free tier allows 100 uploads and 1000000 bytes. With 101 uploads the flag of Alice
  becomes true and is saved; with 100 uploads and 1000001 bytes a flag that is already
  true is not written again; with 100 uploads and 5 bytes it goes back to false.
\<close>

theorem checkUserQuotas_flag_witness:
  "checkUserQuotas (stats_of [(1, \<lparr>NumUploads = 101, TotalUploadsSize = 5\<rparr>)]) save_user example_limits
      db_one_key alice
     = (alice\<lparr>User_QuotaExceeded := True\<rparr>,
        db_one_key\<lparr>staticUsers := [alice\<lparr>User_QuotaExceeded := True\<rparr>, bob]\<rparr>) \<and>
   checkUserQuotas (stats_of [(1, \<lparr>NumUploads = 100, TotalUploadsSize = 1000001\<rparr>)]) save_user example_limits
      db_one_key (alice\<lparr>User_QuotaExceeded := True\<rparr>)
     = (alice\<lparr>User_QuotaExceeded := True\<rparr>, db_one_key) \<and>
   checkUserQuotas (stats_of [(1, \<lparr>NumUploads = 100, TotalUploadsSize = 5\<rparr>)]) save_user example_limits
      (db_one_key\<lparr>staticUsers := [alice\<lparr>User_QuotaExceeded := True\<rparr>, bob]\<rparr>)
      (alice\<lparr>User_QuotaExceeded := True\<rparr>)
     = (alice, db_one_key)"
proof -
  have 1: "stats_of [(1, \<lparr>NumUploads = 101, TotalUploadsSize = 5\<rparr>)] db_one_key alice
             = Inr \<lparr>NumUploads = 101, TotalUploadsSize = 5\<rparr>"
    by (simp add: stats_of_def store_defs)
  have 2: "stats_of [(1, \<lparr>NumUploads = 100, TotalUploadsSize = 1000001\<rparr>)] db_one_key
             (alice\<lparr>User_QuotaExceeded := True\<rparr>)
             = Inr \<lparr>NumUploads = 100, TotalUploadsSize = 1000001\<rparr>"
    by (simp add: stats_of_def store_defs)
  have 3: "stats_of [(1, \<lparr>NumUploads = 100, TotalUploadsSize = 5\<rparr>)]
             (db_one_key\<lparr>staticUsers := [alice\<lparr>User_QuotaExceeded := True\<rparr>, bob]\<rparr>)
             (alice\<lparr>User_QuotaExceeded := True\<rparr>)
             = Inr \<lparr>NumUploads = 100, TotalUploadsSize = 5\<rparr>"
    by (simp add: stats_of_def store_defs)
  from checkUserQuotas_flag [where db_UserStats = "stats_of [(1, \<lparr>NumUploads = 101, TotalUploadsSize = 5\<rparr>)]" and UserLimits = example_limits
         and db_UserSave = save_user, OF 1]
  have a: "checkUserQuotas (stats_of [(1, \<lparr>NumUploads = 101, TotalUploadsSize = 5\<rparr>)]) save_user example_limits
      db_one_key alice
     = (alice\<lparr>User_QuotaExceeded := True\<rparr>,
        db_one_key\<lparr>staticUsers := [alice\<lparr>User_QuotaExceeded := True\<rparr>, bob]\<rparr>)"
    by (simp add: Let_def example_limits_def save_user_def store_defs)
  from checkUserQuotas_flag [where db_UserStats = "stats_of [(1, \<lparr>NumUploads = 100, TotalUploadsSize = 1000001\<rparr>)]" and UserLimits = example_limits
         and db_UserSave = save_user, OF 2]
  have b: "checkUserQuotas (stats_of [(1, \<lparr>NumUploads = 100, TotalUploadsSize = 1000001\<rparr>)]) save_user example_limits
      db_one_key (alice\<lparr>User_QuotaExceeded := True\<rparr>)
     = (alice\<lparr>User_QuotaExceeded := True\<rparr>, db_one_key)"
    by (simp add: Let_def example_limits_def save_user_def store_defs)
  from checkUserQuotas_flag [where db_UserStats = "stats_of [(1, \<lparr>NumUploads = 100, TotalUploadsSize = 5\<rparr>)]" and UserLimits = example_limits
         and db_UserSave = save_user, OF 3]
  have c: "checkUserQuotas (stats_of [(1, \<lparr>NumUploads = 100, TotalUploadsSize = 5\<rparr>)]) save_user example_limits
      (db_one_key\<lparr>staticUsers := [alice\<lparr>User_QuotaExceeded := True\<rparr>, bob]\<rparr>)
      (alice\<lparr>User_QuotaExceeded := True\<rparr>)
     = (alice, db_one_key)"
    by (simp add: Let_def example_limits_def save_user_def store_defs)
  from a b c show ?thesis by blast
qed

lemma loginUser_no_token_event: "\<not> list_ex token_event (loginUser C u)"
  by (simp add: loginUser_def token_event_def split: sum.splits option.splits prod.splits)

lemma loginPOSTCredentials_no_token_event:
  "\<not> list_ex token_event (loginPOSTCredentials C req email pw)"
  by (auto simp add: loginPOSTCredentials_def token_event_def loginUser_no_token_event
       split: sum.splits option.splits)

lemma loginPOSTToken_token_event: "list_ex token_event (loginPOSTToken C req)"
  by (simp add: loginPOSTToken_def token_event_def)

lemma loginPOSTCredentials_ignores_token:
  "loginPOSTCredentials (C\<lparr>tokenFromRequest := f, jwt_ValidateToken := v\<rparr>) (req\<lparr>Token := tok\<rparr>) email pw
     = loginPOSTCredentials C req email pw"
  by (simp add: loginPOSTCredentials_def loginUser_def split: sum.splits option.splits)

lemma loginPOST_dispatch:
  "(PostFormValue req ''email'' \<noteq> '''' \<and> PostFormValue req ''password'' \<noteq> '''' \<longrightarrow>
      loginPOST C req =
        loginPOSTCredentials C req (PostFormValue req ''email'') (PostFormValue req ''password'') \<and>
      \<not> list_ex token_event (loginPOST C req) \<and>
      loginPOST (C\<lparr>tokenFromRequest := f, jwt_ValidateToken := v\<rparr>) (req\<lparr>Token := tok\<rparr>)
        = loginPOST C req) \<and>
   (PostFormValue req ''email'' = '''' \<or> PostFormValue req ''password'' = '''' \<longrightarrow>
      loginPOST C req = loginPOSTToken C req) \<and>
   (list_ex token_event (loginPOST C req) \<longrightarrow>
      PostFormValue req ''email'' = '''' \<or> PostFormValue req ''password'' = '''')"
proof -
  have form: "PostFormValue (req\<lparr>Token := tok\<rparr>) name = PostFormValue req name" for name
    by (simp add: PostFormValue_def)
  show ?thesis
    by (auto simp add: loginPOST_def Let_def form loginPOSTCredentials_no_token_event
          loginPOSTCredentials_ignores_token)
qed

lemma loginPOST_credentials_trace:
  "PostFormValue req ''email'' \<noteq> '''' \<and> PostFormValue req ''password'' \<noteq> '''' \<Longrightarrow>
   (db_UserByEmail C (PostFormValue req ''email'') = Inl err \<longrightarrow>
      loginPOST C req =
        [Call_UserByEmail (PostFormValue req ''email''), WriteError err StatusUnauthorized]) \<and>
   (db_UserByEmail C (PostFormValue req ''email'') = Inr u \<and>
    hash_Compare C (PostFormValue req ''password'') (User_PasswordHash u) = Some herr \<longrightarrow>
      loginPOST C req =
        [Call_UserByEmail (PostFormValue req ''email''),
         Call_hash_Compare (PostFormValue req ''password'') (User_PasswordHash u),
         WriteError (ErrNew ''password mismatch'') StatusUnauthorized]) \<and>
   (db_UserByEmail C (PostFormValue req ''email'') = Inr u \<and>
    hash_Compare C (PostFormValue req ''password'') (User_PasswordHash u) = None \<longrightarrow>
      (jwt_TokenForUser C (User_Email u) (User_Sub u) = Inl err \<longrightarrow>
         loginPOST C req =
           [Call_UserByEmail (PostFormValue req ''email''),
            Call_hash_Compare (PostFormValue req ''password'') (User_PasswordHash u),
            Call_TokenForUser (User_Email u) (User_Sub u),
            WriteError (AddContext err ''failed to create a token for user'')
              StatusInternalServerError]) \<and>
      (jwt_TokenForUser C (User_Email u) (User_Sub u) = Inr (tk, tkBytes) \<longrightarrow>
         (writeCookie C tkBytes (Unix (Expiration tk)) = Some err \<longrightarrow>
            loginPOST C req =
              [Call_UserByEmail (PostFormValue req ''email''),
               Call_hash_Compare (PostFormValue req ''password'') (User_PasswordHash u),
               Call_TokenForUser (User_Email u) (User_Sub u),
               Call_writeCookie tkBytes (Unix (Expiration tk)),
               WriteError err StatusInternalServerError]) \<and>
         (writeCookie C tkBytes (Unix (Expiration tk)) = None \<longrightarrow>
            loginPOST C req =
              [Call_UserByEmail (PostFormValue req ''email''),
               Call_hash_Compare (PostFormValue req ''password'') (User_PasswordHash u),
               Call_TokenForUser (User_Email u) (User_Sub u),
               Call_writeCookie tkBytes (Unix (Expiration tk)),
               WriteSuccess])))"
  by (simp add: loginPOST_def Let_def loginPOSTCredentials_def loginUser_def)

lemma loginPOST_token_trace:
  "PostFormValue req ''email'' = '''' \<or> PostFormValue req ''password'' = '''' \<Longrightarrow>
   (tokenFromRequest C req = Inl err \<longrightarrow>
      loginPOST C req = [Call_tokenFromRequest, WriteError err StatusUnauthorized]) \<and>
   (tokenFromRequest C req = Inr tokenStr \<longrightarrow>
      (jwt_ValidateToken C tokenStr = Inl err \<longrightarrow>
         loginPOST C req =
           [Call_tokenFromRequest, Call_ValidateToken tokenStr, WriteError err StatusUnauthorized]) \<and>
      (jwt_ValidateToken C tokenStr = Inr token \<longrightarrow>
         (time_Now C > Expiration token \<longrightarrow>
            loginPOST C req =
              [Call_tokenFromRequest, Call_ValidateToken tokenStr,
               WriteError (ErrNew ''token has expired'') StatusUnauthorized]) \<and>
         (\<not> time_Now C > Expiration token \<longrightarrow>
            (writeCookie C tokenStr (Unix (Expiration token)) = Some err \<longrightarrow>
               loginPOST C req =
                 [Call_tokenFromRequest, Call_ValidateToken tokenStr,
                  Call_writeCookie tokenStr (Unix (Expiration token)),
                  WriteError err StatusInternalServerError]) \<and>
            (writeCookie C tokenStr (Unix (Expiration token)) = None \<longrightarrow>
               loginPOST C req =
                 [Call_tokenFromRequest, Call_ValidateToken tokenStr,
                  Call_writeCookie tokenStr (Unix (Expiration token)),
                  WriteSuccess]))))"
  by (auto simp add: loginPOST_def Let_def loginPOSTToken_def)

text \<open>
  Claim C10. When the form of a login request has a non-empty email and a non-empty
  password, \<open>loginPOST\<close> authenticates by them: it looks the user up by the email and
  answers 401 when there is none; it compares the password with the user's hash and
  answers 401 on a mismatch; otherwise it issues a token for that user's email and
  subject, writes it to the cookie with the token's expiry and answers success (500 when
  issuing or writing fails). This run neither asks the request for a token nor validates
  one, and it is the same whatever token the request carries and whatever the token
  functions are. When the email or the password is empty, \<open>loginPOST\<close> runs the login
  by token: it takes the token from the request, validates it, refuses it when it has
  expired and otherwise writes it to the cookie. So a run that tries the token has an
  empty email or an empty password.
\<close>

theorem loginPOST_credentials_trump_token:
  "(PostFormValue req ''email'' \<noteq> '''' \<and> PostFormValue req ''password'' \<noteq> '''' \<longrightarrow>
      loginPOST C req =
        loginPOSTCredentials C req (PostFormValue req ''email'') (PostFormValue req ''password'') \<and>
      \<not> list_ex token_event (loginPOST C req) \<and>
      loginPOST (C\<lparr>tokenFromRequest := f, jwt_ValidateToken := v\<rparr>) (req\<lparr>Token := tok\<rparr>)
        = loginPOST C req \<and>
      (db_UserByEmail C (PostFormValue req ''email'') = Inl err \<longrightarrow>
         loginPOST C req =
           [Call_UserByEmail (PostFormValue req ''email''), WriteError err StatusUnauthorized]) \<and>
      (db_UserByEmail C (PostFormValue req ''email'') = Inr u \<and>
       hash_Compare C (PostFormValue req ''password'') (User_PasswordHash u) = Some herr \<longrightarrow>
         loginPOST C req =
           [Call_UserByEmail (PostFormValue req ''email''),
            Call_hash_Compare (PostFormValue req ''password'') (User_PasswordHash u),
            WriteError (ErrNew ''password mismatch'') StatusUnauthorized]) \<and>
      (db_UserByEmail C (PostFormValue req ''email'') = Inr u \<and>
       hash_Compare C (PostFormValue req ''password'') (User_PasswordHash u) = None \<longrightarrow>
         (jwt_TokenForUser C (User_Email u) (User_Sub u) = Inl err \<longrightarrow>
            loginPOST C req =
              [Call_UserByEmail (PostFormValue req ''email''),
               Call_hash_Compare (PostFormValue req ''password'') (User_PasswordHash u),
               Call_TokenForUser (User_Email u) (User_Sub u),
               WriteError (AddContext err ''failed to create a token for user'')
                 StatusInternalServerError]) \<and>
         (jwt_TokenForUser C (User_Email u) (User_Sub u) = Inr (tk, tkBytes) \<longrightarrow>
            (writeCookie C tkBytes (Unix (Expiration tk)) = Some err \<longrightarrow>
               loginPOST C req =
                 [Call_UserByEmail (PostFormValue req ''email''),
                  Call_hash_Compare (PostFormValue req ''password'') (User_PasswordHash u),
                  Call_TokenForUser (User_Email u) (User_Sub u),
                  Call_writeCookie tkBytes (Unix (Expiration tk)),
                  WriteError err StatusInternalServerError]) \<and>
            (writeCookie C tkBytes (Unix (Expiration tk)) = None \<longrightarrow>
               loginPOST C req =
                 [Call_UserByEmail (PostFormValue req ''email''),
                  Call_hash_Compare (PostFormValue req ''password'') (User_PasswordHash u),
                  Call_TokenForUser (User_Email u) (User_Sub u),
                  Call_writeCookie tkBytes (Unix (Expiration tk)),
                  WriteSuccess])))) \<and>
   (PostFormValue req ''email'' = '''' \<or> PostFormValue req ''password'' = '''' \<longrightarrow>
      loginPOST C req = loginPOSTToken C req \<and>
      (tokenFromRequest C req = Inl err \<longrightarrow>
         loginPOST C req = [Call_tokenFromRequest, WriteError err StatusUnauthorized]) \<and>
      (tokenFromRequest C req = Inr tokenStr \<longrightarrow>
         (jwt_ValidateToken C tokenStr = Inl err \<longrightarrow>
            loginPOST C req =
              [Call_tokenFromRequest, Call_ValidateToken tokenStr, WriteError err StatusUnauthorized]) \<and>
         (jwt_ValidateToken C tokenStr = Inr token \<longrightarrow>
            (time_Now C > Expiration token \<longrightarrow>
               loginPOST C req =
                 [Call_tokenFromRequest, Call_ValidateToken tokenStr,
                  WriteError (ErrNew ''token has expired'') StatusUnauthorized]) \<and>
            (\<not> time_Now C > Expiration token \<longrightarrow>
               (writeCookie C tokenStr (Unix (Expiration token)) = Some err \<longrightarrow>
                  loginPOST C req =
                    [Call_tokenFromRequest, Call_ValidateToken tokenStr,
                     Call_writeCookie tokenStr (Unix (Expiration token)),
                     WriteError err StatusInternalServerError]) \<and>
               (writeCookie C tokenStr (Unix (Expiration token)) = None \<longrightarrow>
                  loginPOST C req =
                    [Call_tokenFromRequest, Call_ValidateToken tokenStr,
                     Call_writeCookie tokenStr (Unix (Expiration token)),
                     WriteSuccess]))))) \<and>
   (list_ex token_event (loginPOST C req) \<longrightarrow>
      PostFormValue req ''email'' = '''' \<or> PostFormValue req ''password'' = '''')"
  (is "(?c1 \<longrightarrow> ?A \<and> ?B \<and> ?I \<and> ?T1) \<and> (?c2 \<longrightarrow> ?E \<and> ?T2) \<and> ?F")
proof -
  note D = loginPOST_dispatch [where req = req and C = C and f = f and v = v and tok = tok]
  have d1: "?c1 \<longrightarrow> ?A \<and> ?B \<and> ?I" by (rule D [THEN conjunct1])
  have d2: "?c2 \<longrightarrow> ?E" by (rule D [THEN conjunct2, THEN conjunct1])
  have d3: "?F" by (rule D [THEN conjunct2, THEN conjunct2])
  have p1: "?c1 \<longrightarrow> ?A \<and> ?B \<and> ?I \<and> ?T1"
  proof
    assume h: "?c1"
    from d1 h have abi: "?A \<and> ?B \<and> ?I" by (rule mp)
    have t1: "?T1"
      by (rule loginPOST_credentials_trace
            [where req = req and C = C and err = err and u = u and herr = herr and tk = tk
               and tkBytes = tkBytes, OF h])
    show "?A \<and> ?B \<and> ?I \<and> ?T1"
      by (rule conjI [OF abi [THEN conjunct1]
                conjI [OF abi [THEN conjunct2, THEN conjunct1]
                  conjI [OF abi [THEN conjunct2, THEN conjunct2] t1]]])
  qed
  have p2: "?c2 \<longrightarrow> ?E \<and> ?T2"
  proof
    assume h: "?c2"
    from d2 h have e: "?E" by (rule mp)
    have t2: "?T2"
      by (rule loginPOST_token_trace
            [where req = req and C = C and err = err and tokenStr = tokenStr and token = token,
             OF h])
    show "?E \<and> ?T2" by (rule conjI [OF e t2])
  qed
  show ?thesis by (rule conjI [OF p1 conjI [OF p2 d3]])
qed

text \<open>The answers of the example collaborators.\<close>

lemmas login_defs = example_collaborators_def collaborators_cookie_failure_def
  collaborators_late_clock_def alice_def bob_def carol_def

lemmas request_defs = PostFormValue_def request_with_credentials_def request_with_token_only_def
  request_wrong_password_def request_unknown_user_def request_carol_def
  request_without_token_def request_with_forged_token_def

lemma issue_alice:
  "TokenForUser (sym_libs disk) globals_loaded 5000000000 ''alice@example.com'' ''sub-alice''
     = Ok alice_token"
  by (simp add: TokenForUser_def tokenForUser_def Set_claim_def signatureAlgoAndKey_def Let_def
        sym_defs json_roundtrip_def marshal_claim_def marshal_session_def int64_def Unix_def
        alice_token_def)

lemma serialize_alice:
  "TokenSerialize (sym_libs disk) globals_loaded alice_token = Ok alice_cookie"
  by (simp add: TokenSerialize_def signatureAlgoAndKey_def Let_def sym_defs json_roundtrip_def
        marshal_claim_def alice_token_def alice_cookie_def)

lemma issue_carol:
  "TokenForUser (sym_libs disk) globals_loaded 5000000000 ''carol@example.com'' ''''
     = Err (AddContext (ErrNew ''email and sub cannot be empty'') ''failed to build token'')"
  by (simp add: TokenForUser_def tokenForUser_def signatureAlgoAndKey_def Let_def sym_defs)

lemma validate_fresh:
  "ValidateToken (sym_libs disk) globals_loaded 5000000000 fresh_signed = Inr fresh_claims"
  by (simp add: ValidateToken_def sym_defs fresh_signed_def fresh_claims_def Expiration_def Get_def
        time_Unix_def)

lemma validate_forged:
  "ValidateToken (sym_libs disk) globals_loaded 5000000000 expired_forged
     = Inl (ErrExternal ''failed to verify signature'')"
  by (simp add: ValidateToken_def sym_defs expired_forged_def)

lemma expiration_alice: "Unix (Expiration alice_token) = 2592005"
  by (simp add: Expiration_def Get_def alice_token_def time_Unix_def Unix_def)

lemma expiration_fresh: "Expiration fresh_claims = 30000000000" "Unix (Expiration fresh_claims) = 30"
  by (simp_all add: Expiration_def Get_def fresh_claims_def time_Unix_def Unix_def)

text \<open>
  With credentials and a token attached: Alice with her password, an unknown email, a
  wrong password, a user for whom no token can be issued, and a failing cookie writer.
  Without a password: a valid token, no token, a forged token, a token that has expired
  on the handler's clock, and a failing cookie writer.
\<close>

theorem loginPOST_credentials_trump_token_witness:
  "loginPOST example_collaborators request_with_credentials =
     [Call_UserByEmail ''alice@example.com'', Call_hash_Compare ''a'' ''hash-a'',
      Call_TokenForUser ''alice@example.com'' ''sub-alice'',
      Call_writeCookie alice_cookie 2592005, WriteSuccess] \<and>
   \<not> list_ex token_event (loginPOST example_collaborators request_with_credentials) \<and>
   loginPOST example_collaborators (request_with_credentials\<lparr>Token := None\<rparr>) =
     loginPOST example_collaborators request_with_credentials \<and>
   loginPOST example_collaborators request_unknown_user =
     [Call_UserByEmail ''eve@example.com'', WriteError (ErrNew ''user not found'') StatusUnauthorized] \<and>
   loginPOST example_collaborators request_wrong_password =
     [Call_UserByEmail ''alice@example.com'', Call_hash_Compare ''x'' ''hash-a'',
      WriteError (ErrNew ''password mismatch'') StatusUnauthorized] \<and>
   loginPOST example_collaborators request_carol =
     [Call_UserByEmail ''carol@example.com'', Call_hash_Compare ''c'' ''hash-c'',
      Call_TokenForUser ''carol@example.com'' '''',
      WriteError (AddContext (AddContext (ErrNew ''email and sub cannot be empty'')
                                ''failed to build token'')
                    ''failed to create a token for user'')
        StatusInternalServerError] \<and>
   loginPOST collaborators_cookie_failure request_with_credentials =
     [Call_UserByEmail ''alice@example.com'', Call_hash_Compare ''a'' ''hash-a'',
      Call_TokenForUser ''alice@example.com'' ''sub-alice'',
      Call_writeCookie alice_cookie 2592005,
      WriteError (ErrNew ''failed to encode the cookie'') StatusInternalServerError] \<and>
   loginPOST example_collaborators request_with_token_only =
     [Call_tokenFromRequest, Call_ValidateToken fresh_signed, Call_writeCookie fresh_signed 30,
      WriteSuccess] \<and>
   list_ex token_event (loginPOST example_collaborators request_with_token_only) \<and>
   PostFormValue request_with_token_only ''password'' = '''' \<and>
   loginPOST example_collaborators request_without_token =
     [Call_tokenFromRequest, WriteError (ErrNew ''no token found'') StatusUnauthorized] \<and>
   loginPOST example_collaborators request_with_forged_token =
     [Call_tokenFromRequest, Call_ValidateToken expired_forged,
      WriteError (ErrExternal ''failed to verify signature'') StatusUnauthorized] \<and>
   loginPOST collaborators_late_clock request_with_token_only =
     [Call_tokenFromRequest, Call_ValidateToken fresh_signed,
      WriteError (ErrNew ''token has expired'') StatusUnauthorized] \<and>
   loginPOST collaborators_cookie_failure request_with_token_only =
     [Call_tokenFromRequest, Call_ValidateToken fresh_signed, Call_writeCookie fresh_signed 30,
      WriteError (ErrNew ''failed to encode the cookie'') StatusInternalServerError]"
proof -
  have cred_form: "PostFormValue request_with_credentials ''email'' = ''alice@example.com''"
      "PostFormValue request_with_credentials ''password'' = ''a''"
    by (simp_all add: request_defs)
  have unknown_form: "PostFormValue request_unknown_user ''email'' = ''eve@example.com''"
      "PostFormValue request_unknown_user ''password'' = ''e''"
    by (simp_all add: request_defs)
  have wrong_form: "PostFormValue request_wrong_password ''email'' = ''alice@example.com''"
      "PostFormValue request_wrong_password ''password'' = ''x''"
    by (simp_all add: request_defs)
  have carol_form: "PostFormValue request_carol ''email'' = ''carol@example.com''"
      "PostFormValue request_carol ''password'' = ''c''"
    by (simp_all add: request_defs)
  have c1_cred: "PostFormValue request_with_credentials ''email'' \<noteq> '''' \<and>
                 PostFormValue request_with_credentials ''password'' \<noteq> ''''"
    by (simp add: cred_form)
  have c1_unknown: "PostFormValue request_unknown_user ''email'' \<noteq> '''' \<and>
                    PostFormValue request_unknown_user ''password'' \<noteq> ''''"
    by (simp add: unknown_form)
  have c1_wrong: "PostFormValue request_wrong_password ''email'' \<noteq> '''' \<and>
                  PostFormValue request_wrong_password ''password'' \<noteq> ''''"
    by (simp add: wrong_form)
  have c1_carol: "PostFormValue request_carol ''email'' \<noteq> '''' \<and>
                  PostFormValue request_carol ''password'' \<noteq> ''''"
    by (simp add: carol_form)
  have c2_token: "PostFormValue request_with_token_only ''email'' = '''' \<or>
                  PostFormValue request_with_token_only ''password'' = ''''"
    by (simp add: request_defs)
  have c2_none: "PostFormValue request_without_token ''email'' = '''' \<or>
                 PostFormValue request_without_token ''password'' = ''''"
    by (simp add: request_defs)
  have c2_forged: "PostFormValue request_with_forged_token ''email'' = '''' \<or>
                   PostFormValue request_with_forged_token ''password'' = ''''"
    by (simp add: request_defs)
  have alice_found_ex: "db_UserByEmail example_collaborators (PostFormValue request_with_credentials ''email'') = Inr alice"
    by (simp add: cred_form login_defs)
  have alice_found_cf: "db_UserByEmail collaborators_cookie_failure (PostFormValue request_with_credentials ''email'') = Inr alice"
    by (simp add: cred_form login_defs)
  have alice_pw_ex: "hash_Compare example_collaborators (PostFormValue request_with_credentials ''password'') (User_PasswordHash alice) = None"
    by (simp add: cred_form login_defs)
  have alice_pw_cf: "hash_Compare collaborators_cookie_failure (PostFormValue request_with_credentials ''password'') (User_PasswordHash alice) = None"
    by (simp add: cred_form login_defs)
  have alice_tk_ex: "jwt_TokenForUser example_collaborators (User_Email alice) (User_Sub alice) = Inr (alice_token, alice_cookie)"
    using issue_alice serialize_alice by (simp add: login_defs)
  have alice_tk_cf: "jwt_TokenForUser collaborators_cookie_failure (User_Email alice) (User_Sub alice) = Inr (alice_token, alice_cookie)"
    using issue_alice serialize_alice by (simp add: login_defs)
  have cookie_ok: "writeCookie example_collaborators t e = None" for t e
    by (simp add: login_defs)
  have cookie_fails: "writeCookie collaborators_cookie_failure t e
                        = Some (ErrNew ''failed to encode the cookie'')" for t e
    by (simp add: login_defs)
  have eve: "db_UserByEmail example_collaborators (PostFormValue request_unknown_user ''email'')
               = Inl (ErrNew ''user not found'')"
    by (simp add: unknown_form login_defs)
  have alice_wrong: "db_UserByEmail example_collaborators (PostFormValue request_wrong_password ''email'')
                       = Inr alice \<and>
                     hash_Compare example_collaborators (PostFormValue request_wrong_password ''password'')
                       (User_PasswordHash alice) = Some (ErrNew ''mismatch'')"
    by (simp add: wrong_form login_defs)
  have carol_found: "db_UserByEmail example_collaborators (PostFormValue request_carol ''email'')
                       = Inr carol \<and>
                     hash_Compare example_collaborators (PostFormValue request_carol ''password'')
                       (User_PasswordHash carol) = None"
    by (simp add: carol_form login_defs)
  have carol_tk: "jwt_TokenForUser example_collaborators (User_Email carol) (User_Sub carol)
                    = Inl (AddContext (ErrNew ''email and sub cannot be empty'') ''failed to build token'')"
    using issue_carol by (simp add: login_defs)
  have token_found_ex: "tokenFromRequest example_collaborators request_with_token_only = Inr fresh_signed"
    by (simp add: login_defs request_defs)
  have token_found_cf: "tokenFromRequest collaborators_cookie_failure request_with_token_only = Inr fresh_signed"
    by (simp add: login_defs request_defs)
  have token_found_lc: "tokenFromRequest collaborators_late_clock request_with_token_only = Inr fresh_signed"
    by (simp add: login_defs request_defs)
  have token_valid_ex: "jwt_ValidateToken example_collaborators fresh_signed = Inr fresh_claims"
    using validate_fresh by (simp add: login_defs)
  have token_valid_cf: "jwt_ValidateToken collaborators_cookie_failure fresh_signed = Inr fresh_claims"
    using validate_fresh by (simp add: login_defs)
  have token_valid_lc: "jwt_ValidateToken collaborators_late_clock fresh_signed = Inr fresh_claims"
    using validate_fresh by (simp add: login_defs)
  have no_token: "tokenFromRequest example_collaborators request_without_token
                    = Inl (ErrNew ''no token found'')"
    by (simp add: login_defs request_defs)
  have forged_found: "tokenFromRequest example_collaborators request_with_forged_token
                        = Inr expired_forged"
    by (simp add: login_defs request_defs)
  have forged_invalid: "jwt_ValidateToken example_collaborators expired_forged
                          = Inl (ErrExternal ''failed to verify signature'')"
    using validate_forged by (simp add: login_defs)
  have in_time_ex: "\<not> time_Now example_collaborators > Expiration fresh_claims"
    by (simp add: login_defs expiration_fresh)
  have in_time_cf: "\<not> time_Now collaborators_cookie_failure > Expiration fresh_claims"
    by (simp add: login_defs expiration_fresh)
  have late: "time_Now collaborators_late_clock > Expiration fresh_claims"
    by (simp add: login_defs expiration_fresh)
  note cred = loginPOST_credentials_trump_token
    [where req = request_with_credentials and C = example_collaborators and u = alice
       and tk = alice_token and tkBytes = alice_cookie
       and f = "tokenFromRequest example_collaborators"
       and v = "jwt_ValidateToken example_collaborators" and tok = None,
     THEN conjunct1, THEN mp, OF c1_cred]
  have same: "example_collaborators
      \<lparr>tokenFromRequest := tokenFromRequest example_collaborators,
       jwt_ValidateToken := jwt_ValidateToken example_collaborators\<rparr> = example_collaborators"
    by simp
  have r1: "loginPOST example_collaborators request_with_credentials =
     [Call_UserByEmail ''alice@example.com'', Call_hash_Compare ''a'' ''hash-a'',
      Call_TokenForUser ''alice@example.com'' ''sub-alice'',
      Call_writeCookie alice_cookie 2592005, WriteSuccess]"
    using cred [THEN conjunct2, THEN conjunct2, THEN conjunct2, THEN conjunct2, THEN conjunct2,
                THEN mp, OF conjI [OF alice_found_ex alice_pw_ex],
                THEN conjunct2, THEN mp, OF alice_tk_ex, THEN conjunct2, THEN mp, OF cookie_ok]
    by (simp add: cred_form expiration_alice alice_def)
  have r2: "\<not> list_ex token_event (loginPOST example_collaborators request_with_credentials)"
    by (rule cred [THEN conjunct2, THEN conjunct1])
  have r3: "loginPOST example_collaborators (request_with_credentials\<lparr>Token := None\<rparr>) =
     loginPOST example_collaborators request_with_credentials"
    using cred [THEN conjunct2, THEN conjunct2, THEN conjunct1] by (simp only: same)
  note unknown = loginPOST_credentials_trump_token
    [where req = request_unknown_user and C = example_collaborators
       and err = "ErrNew ''user not found''",
     THEN conjunct1, THEN mp, OF c1_unknown]
  have r4: "loginPOST example_collaborators request_unknown_user =
     [Call_UserByEmail ''eve@example.com'', WriteError (ErrNew ''user not found'') StatusUnauthorized]"
    using unknown [THEN conjunct2, THEN conjunct2, THEN conjunct2, THEN conjunct1, THEN mp, OF eve]
    by (simp add: unknown_form)
  note wrong = loginPOST_credentials_trump_token
    [where req = request_wrong_password and C = example_collaborators and u = alice
       and herr = "ErrNew ''mismatch''",
     THEN conjunct1, THEN mp, OF c1_wrong]
  have r5: "loginPOST example_collaborators request_wrong_password =
     [Call_UserByEmail ''alice@example.com'', Call_hash_Compare ''x'' ''hash-a'',
      WriteError (ErrNew ''password mismatch'') StatusUnauthorized]"
    using wrong [THEN conjunct2, THEN conjunct2, THEN conjunct2, THEN conjunct2, THEN conjunct1,
                 THEN mp, OF alice_wrong]
    by (simp add: wrong_form alice_def)
  note carol_login = loginPOST_credentials_trump_token
    [where req = request_carol and C = example_collaborators and u = carol
       and err = "AddContext (ErrNew ''email and sub cannot be empty'') ''failed to build token''",
     THEN conjunct1, THEN mp, OF c1_carol]
  have r6: "loginPOST example_collaborators request_carol =
     [Call_UserByEmail ''carol@example.com'', Call_hash_Compare ''c'' ''hash-c'',
      Call_TokenForUser ''carol@example.com'' '''',
      WriteError (AddContext (AddContext (ErrNew ''email and sub cannot be empty'')
                                ''failed to build token'')
                    ''failed to create a token for user'')
        StatusInternalServerError]"
    using carol_login [THEN conjunct2, THEN conjunct2, THEN conjunct2, THEN conjunct2, THEN conjunct2,
                       THEN mp, OF carol_found, THEN conjunct1, THEN mp, OF carol_tk]
    by (simp add: carol_form carol_def)
  note cred_cookie = loginPOST_credentials_trump_token
    [where req = request_with_credentials and C = collaborators_cookie_failure and u = alice
       and tk = alice_token and tkBytes = alice_cookie
       and err = "ErrNew ''failed to encode the cookie''",
     THEN conjunct1, THEN mp, OF c1_cred]
  have r7: "loginPOST collaborators_cookie_failure request_with_credentials =
     [Call_UserByEmail ''alice@example.com'', Call_hash_Compare ''a'' ''hash-a'',
      Call_TokenForUser ''alice@example.com'' ''sub-alice'',
      Call_writeCookie alice_cookie 2592005,
      WriteError (ErrNew ''failed to encode the cookie'') StatusInternalServerError]"
    using cred_cookie [THEN conjunct2, THEN conjunct2, THEN conjunct2, THEN conjunct2, THEN conjunct2,
                       THEN mp, OF conjI [OF alice_found_cf alice_pw_cf],
                       THEN conjunct2, THEN mp, OF alice_tk_cf, THEN conjunct1, THEN mp, OF cookie_fails]
    by (simp add: cred_form expiration_alice alice_def)
  note tok = loginPOST_credentials_trump_token
    [where req = request_with_token_only and C = example_collaborators
       and tokenStr = fresh_signed and token = fresh_claims,
     THEN conjunct2, THEN conjunct1, THEN mp, OF c2_token]
  have r8: "loginPOST example_collaborators request_with_token_only =
     [Call_tokenFromRequest, Call_ValidateToken fresh_signed, Call_writeCookie fresh_signed 30,
      WriteSuccess]"
    using tok [THEN conjunct2, THEN conjunct2, THEN mp, OF token_found_ex,
               THEN conjunct2, THEN mp, OF token_valid_ex, THEN conjunct2, THEN mp, OF in_time_ex,
               THEN conjunct2, THEN mp, OF cookie_ok]
    by (simp add: expiration_fresh(2))
  have r9: "list_ex token_event (loginPOST example_collaborators request_with_token_only)"
    by (simp add: r8 token_event_def)
  have r10: "PostFormValue request_with_token_only ''password'' = ''''"
    using loginPOST_credentials_trump_token
      [where req = request_with_token_only and C = example_collaborators,
       THEN conjunct2, THEN conjunct2, THEN mp, OF r9]
    by (simp add: request_defs)
  note none = loginPOST_credentials_trump_token
    [where req = request_without_token and C = example_collaborators
       and err = "ErrNew ''no token found''",
     THEN conjunct2, THEN conjunct1, THEN mp, OF c2_none]
  have r11: "loginPOST example_collaborators request_without_token =
     [Call_tokenFromRequest, WriteError (ErrNew ''no token found'') StatusUnauthorized]"
    by (rule none [THEN conjunct2, THEN conjunct1, THEN mp, OF no_token])
  note forged = loginPOST_credentials_trump_token
    [where req = request_with_forged_token and C = example_collaborators
       and tokenStr = expired_forged and err = "ErrExternal ''failed to verify signature''",
     THEN conjunct2, THEN conjunct1, THEN mp, OF c2_forged]
  have r12: "loginPOST example_collaborators request_with_forged_token =
     [Call_tokenFromRequest, Call_ValidateToken expired_forged,
      WriteError (ErrExternal ''failed to verify signature'') StatusUnauthorized]"
    by (rule forged [THEN conjunct2, THEN conjunct2, THEN mp, OF forged_found,
                     THEN conjunct1, THEN mp, OF forged_invalid])
  note tok_late = loginPOST_credentials_trump_token
    [where req = request_with_token_only and C = collaborators_late_clock
       and tokenStr = fresh_signed and token = fresh_claims,
     THEN conjunct2, THEN conjunct1, THEN mp, OF c2_token]
  have r13: "loginPOST collaborators_late_clock request_with_token_only =
     [Call_tokenFromRequest, Call_ValidateToken fresh_signed,
      WriteError (ErrNew ''token has expired'') StatusUnauthorized]"
    by (rule tok_late [THEN conjunct2, THEN conjunct2, THEN mp, OF token_found_lc,
                       THEN conjunct2, THEN mp, OF token_valid_lc, THEN conjunct1, THEN mp, OF late])
  note tok_cookie = loginPOST_credentials_trump_token
    [where req = request_with_token_only and C = collaborators_cookie_failure
       and tokenStr = fresh_signed and token = fresh_claims
       and err = "ErrNew ''failed to encode the cookie''",
     THEN conjunct2, THEN conjunct1, THEN mp, OF c2_token]
  have r14: "loginPOST collaborators_cookie_failure request_with_token_only =
     [Call_tokenFromRequest, Call_ValidateToken fresh_signed, Call_writeCookie fresh_signed 30,
      WriteError (ErrNew ''failed to encode the cookie'') StatusInternalServerError]"
    using tok_cookie [THEN conjunct2, THEN conjunct2, THEN mp, OF token_found_cf,
                      THEN conjunct2, THEN mp, OF token_valid_cf, THEN conjunct2, THEN mp, OF in_time_cf,
                      THEN conjunct1, THEN mp, OF cookie_fails]
    by (simp add: expiration_fresh(2))
  show ?thesis
    by (intro conjI) (rule r1 r2 r3 r4 r5 r6 r7 r8 r9 r10 r11 r12 r13 r14)+
qed

end
